theory Spec2Isabelle
  imports Complex_Main "HOL-Library.Sublist" "HOL-Library.Char_ord" "HOL-Library.List_Lexorder"
    "HOL-Library.Product_Lexorder" "HOL-Library.Code_Target_Numeral"
begin

section \<open>Go strings\<close>

text \<open>
  A Go string is a sequence of bytes; it is modelled as \<^typ>\<open>string\<close>, a list of 8-bit
  characters. The functions of package \<open>strings\<close> that the program calls are written out
  on bytes. All separators, prefixes and cutsets the program passes are ASCII, where
  Go's rune-wise functions act byte-wise.
\<close>

definition HasPrefix :: "string \<Rightarrow> string \<Rightarrow> bool" where
  "HasPrefix s p = prefix p s"

definition HasSuffix :: "string \<Rightarrow> string \<Rightarrow> bool" where
  "HasSuffix s p = suffix p s"

definition TrimLeft :: "string \<Rightarrow> string \<Rightarrow> string" where
  \<comment> \<open>\<open>strings.TrimLeft(s, cutset)\<close>: removes every leading byte that occurs in the cutset.\<close>
  "TrimLeft s cutset = dropWhile (\<lambda>c. c \<in> set cutset) s"

text \<open>
  \<open>strings.TrimSpace\<close> removes leading and trailing white space as defined by Unicode.
  On bytes these are the six ASCII space characters and the UTF-8 encodings of
  U+0085, U+00A0, U+1680, U+2000 to U+200A, U+2028, U+2029, U+202F, U+205F and U+3000.
\<close>

definition spaceSeqs :: "string list" where
  "spaceSeqs =
    [[CHR 0x09], [CHR 0x0A], [CHR 0x0B], [CHR 0x0C], [CHR 0x0D], [CHR 0x20],
     [CHR 0xC2, CHR 0x85], [CHR 0xC2, CHR 0xA0],
     [CHR 0xE1, CHR 0x9A, CHR 0x80],
     [CHR 0xE2, CHR 0x80, CHR 0x80], [CHR 0xE2, CHR 0x80, CHR 0x81],
     [CHR 0xE2, CHR 0x80, CHR 0x82], [CHR 0xE2, CHR 0x80, CHR 0x83],
     [CHR 0xE2, CHR 0x80, CHR 0x84], [CHR 0xE2, CHR 0x80, CHR 0x85],
     [CHR 0xE2, CHR 0x80, CHR 0x86], [CHR 0xE2, CHR 0x80, CHR 0x87],
     [CHR 0xE2, CHR 0x80, CHR 0x88], [CHR 0xE2, CHR 0x80, CHR 0x89],
     [CHR 0xE2, CHR 0x80, CHR 0x8A],
     [CHR 0xE2, CHR 0x80, CHR 0xA8], [CHR 0xE2, CHR 0x80, CHR 0xA9],
     [CHR 0xE2, CHR 0x80, CHR 0xAF],
     [CHR 0xE2, CHR 0x81, CHR 0x9F],
     [CHR 0xE3, CHR 0x80, CHR 0x80]]"

definition leadingSpace :: "string \<Rightarrow> string option" where
  \<comment> \<open>the encoded white-space character the string starts with, if any\<close>
  "leadingSpace s = find (\<lambda>p. prefix p s) spaceSeqs"

definition trailingSpace :: "string \<Rightarrow> string option" where
  "trailingSpace s = find (\<lambda>p. suffix p s) spaceSeqs"

lemma spaceSeqs_nonempty: "p \<in> set spaceSeqs \<Longrightarrow> p \<noteq> []"
  by (auto simp: spaceSeqs_def)

lemma leadingSpace_Some: "leadingSpace s = Some p \<Longrightarrow> p \<noteq> [] \<and> prefix p s"
  unfolding leadingSpace_def find_Some_iff
  by (metis nth_mem spaceSeqs_nonempty)

lemma trailingSpace_Some: "trailingSpace s = Some p \<Longrightarrow> p \<noteq> [] \<and> suffix p s"
  unfolding trailingSpace_def find_Some_iff
  by (metis nth_mem spaceSeqs_nonempty)

function trimLeftSpace :: "string \<Rightarrow> string" where
  "trimLeftSpace s =
     (case leadingSpace s of
        None \<Rightarrow> s
      | Some p \<Rightarrow> trimLeftSpace (drop (length p) s))"
  by pat_completeness auto
termination trimLeftSpace
proof (relation "measure length")
  show "wf (measure length)" by simp
next
  fix s p assume "leadingSpace s = Some p"
  then have "p \<noteq> []" "prefix p s" using leadingSpace_Some by blast+
  then have "s \<noteq> []" by auto
  with \<open>p \<noteq> []\<close> show "(drop (length p) s, s) \<in> measure length" by simp
qed

function trimRightSpace :: "string \<Rightarrow> string" where
  "trimRightSpace s =
     (case trailingSpace s of
        None \<Rightarrow> s
      | Some p \<Rightarrow> trimRightSpace (take (length s - length p) s))"
  by pat_completeness auto
termination trimRightSpace
proof (relation "measure length")
  show "wf (measure length)" by simp
next
  fix s p assume "trailingSpace s = Some p"
  then have "p \<noteq> []" "suffix p s" using trailingSpace_Some by blast+
  then have "s \<noteq> []" by auto
  with \<open>p \<noteq> []\<close> show "(take (length s - length p) s, s) \<in> measure length" by simp
qed

declare trimLeftSpace.simps [simp del] trimRightSpace.simps [simp del]

definition TrimSpace :: "string \<Rightarrow> string" where
  "TrimSpace s = trimRightSpace (trimLeftSpace s)"

text \<open>
  \<open>strings.Split(s, sep)\<close> for a one-byte separator: the pieces between the
  separators, so that the empty string gives one empty piece.
\<close>

fun Split :: "string \<Rightarrow> char \<Rightarrow> string list" where
  "Split [] sep = [[]]"
| "Split (c # cs) sep =
     (if c = sep then [] # Split cs sep
      else (c # hd (Split cs sep)) # tl (Split cs sep))"

text \<open>
  \<open>strings.SplitN(s, sep, n)\<close> for a one-byte separator and \<open>n \<ge> 0\<close>: at most
  \<open>n\<close> pieces, the last one the unsplit remainder.
\<close>

fun SplitN :: "string \<Rightarrow> char \<Rightarrow> nat \<Rightarrow> string list" where
  "SplitN s sep 0 = []"
| "SplitN s sep (Suc 0) = [s]"
| "SplitN s sep (Suc (Suc n)) =
     (if sep \<in> set s
      then takeWhile (\<lambda>c. c \<noteq> sep) s
             # SplitN (tl (dropWhile (\<lambda>c. c \<noteq> sep) s)) sep (Suc n)
      else [s])"

definition IndexByte :: "string \<Rightarrow> char \<Rightarrow> nat option" where
  \<comment> \<open>\<open>strings.IndexRune(s, c)\<close> for an ASCII \<open>c\<close>; \<open>None\<close> stands for \<open>-1\<close>.\<close>
  "IndexByte s c = (if c \<in> set s then Some (length (takeWhile (\<lambda>x. x \<noteq> c) s)) else None)"

section \<open>Semantic versions\<close>

text \<open>
  The program parses and compares versions with the library
  \<open>github.com/blang/semver/v4\<close>, a dependency outside the repository. Its functions
  \<open>Parse\<close> (\<open>Make\<close> is the same function), \<open>NewPRVersion\<close>, \<open>Compare\<close>,
  \<open>Equals\<close>, \<open>GT\<close> and \<open>GTE\<close> are written out here as the library defines them.
  The fields of type \<open>uint64\<close> are natural numbers: the parser rejects what does not
  fit in 64 bits, and no arithmetic is done on them.
\<close>

datatype semver_error =
    VersionStringEmpty
  | NoMajorMinorPatch
  | InvalidCharacters string
  | LeadingZeroes string
  | ParseUintSyntax string
  | ParseUintRange string
  | PrereleaseEmpty
  | BuildMetaDataEmpty

record PRVersion =
  VersionStr :: string
  VersionNum :: nat
  IsNum :: bool

record Version =
  Major :: nat
  Minor :: nat
  Patch :: nat
  Pre :: "PRVersion list"
  Build :: "string list"

definition zeroVersion :: Version where
  \<comment> \<open>Go's zero value \<open>Version{}\<close>\<close>
  "zeroVersion = \<lparr>Major = 0, Minor = 0, Patch = 0, Pre = [], Build = []\<rparr>"

definition numbers :: string where
  "numbers = ''0123456789''"

definition alphas :: string where
  "alphas = ''abcdefghijklmnopqrstuvwxyzABCDEFGHIJKLMNOPQRSTUVWXYZ-''"

definition alphanum :: string where
  "alphanum = alphas @ numbers"

definition containsOnly :: "string \<Rightarrow> string \<Rightarrow> bool" where
  "containsOnly s chars = list_all (\<lambda>c. c \<in> set chars) s"

definition hasLeadingZeroes :: "string \<Rightarrow> bool" where
  "hasLeadingZeroes s = (length s > 1 \<and> hd s = CHR ''0'')"

definition digitsValue :: "string \<Rightarrow> nat" where
  "digitsValue s = foldl (\<lambda>n c. 10 * n + (of_char c - 48)) 0 s"

definition ParseUint :: "string \<Rightarrow> semver_error + nat" where
  \<comment> \<open>\<open>strconv.ParseUint(s, 10, 64)\<close>\<close>
  "ParseUint s =
     (if s = [] \<or> \<not> containsOnly s numbers then Inl (ParseUintSyntax s)
      else if digitsValue s \<ge> 2 ^ 64 then Inl (ParseUintRange s)
      else Inr (digitsValue s))"

definition parseNumber :: "string \<Rightarrow> semver_error + nat" where
  \<comment> \<open>the three checks \<open>Parse\<close> makes on each of major, minor and patch\<close>
  "parseNumber s =
     (if \<not> containsOnly s numbers then Inl (InvalidCharacters s)
      else if hasLeadingZeroes s then Inl (LeadingZeroes s)
      else ParseUint s)"

definition NewPRVersion :: "string \<Rightarrow> semver_error + PRVersion" where
  "NewPRVersion s =
     (if s = [] then Inl PrereleaseEmpty
      else if containsOnly s numbers then
        (if hasLeadingZeroes s then Inl (LeadingZeroes s)
         else case ParseUint s of
                Inl e \<Rightarrow> Inl e
              | Inr num \<Rightarrow> Inr \<lparr>VersionStr = [], VersionNum = num, IsNum = True\<rparr>)
      else if containsOnly s alphanum then
        Inr \<lparr>VersionStr = s, VersionNum = 0, IsNum = False\<rparr>
      else Inl (InvalidCharacters s))"

fun parsePrerelease :: "string list \<Rightarrow> semver_error + PRVersion list" where
  "parsePrerelease [] = Inr []"
| "parsePrerelease (prstr # rest) =
     (case NewPRVersion prstr of
        Inl e \<Rightarrow> Inl e
      | Inr parsedPR \<Rightarrow>
          (case parsePrerelease rest of
             Inl e \<Rightarrow> Inl e
           | Inr prs \<Rightarrow> Inr (parsedPR # prs)))"

fun parseBuild :: "string list \<Rightarrow> semver_error + string list" where
  "parseBuild [] = Inr []"
| "parseBuild (str # rest) =
     (if str = [] then Inl BuildMetaDataEmpty
      else if \<not> containsOnly str alphanum then Inl (InvalidCharacters str)
      else case parseBuild rest of
             Inl e \<Rightarrow> Inl e
           | Inr bs \<Rightarrow> Inr (str # bs))"

definition Parse :: "string \<Rightarrow> semver_error + Version" where
  "Parse s =
     (if s = [] then Inl VersionStringEmpty
      else case SplitN s CHR ''.'' 3 of
        [major_s, minor_s, rest] \<Rightarrow>
          (case parseNumber major_s of
             Inl e \<Rightarrow> Inl e
           | Inr major \<Rightarrow>
          (case parseNumber minor_s of
             Inl e \<Rightarrow> Inl e
           | Inr minor \<Rightarrow>
             let (build, patchStr1) =
                   (case IndexByte rest CHR ''+'' of
                      Some buildIndex \<Rightarrow>
                        (Split (drop (buildIndex + 1) rest) CHR ''.'', take buildIndex rest)
                    | None \<Rightarrow> ([], rest));
                 (prerelease, patchStr) =
                   (case IndexByte patchStr1 CHR ''-'' of
                      Some preIndex \<Rightarrow>
                        (Split (drop (preIndex + 1) patchStr1) CHR ''.'', take preIndex patchStr1)
                    | None \<Rightarrow> ([], patchStr1))
             in case parseNumber patchStr of
                  Inl e \<Rightarrow> Inl e
                | Inr patch \<Rightarrow>
               (case parsePrerelease prerelease of
                  Inl e \<Rightarrow> Inl e
                | Inr pre \<Rightarrow>
               (case parseBuild build of
                  Inl e \<Rightarrow> Inl e
                | Inr bld \<Rightarrow>
                    Inr \<lparr>Major = major, Minor = minor, Patch = patch,
                         Pre = pre, Build = bld\<rparr>))))
      | _ \<Rightarrow> Inl NoMajorMinorPatch)"

definition Make :: "string \<Rightarrow> semver_error + Version" where
  "Make s = Parse s"

definition PRCompare :: "PRVersion \<Rightarrow> PRVersion \<Rightarrow> int" where
  \<comment> \<open>\<open>PRVersion.Compare\<close>: a number is below a text; strings compare byte-wise\<close>
  "PRCompare v o' =
     (if IsNum v \<and> \<not> IsNum o' then -1
      else if \<not> IsNum v \<and> IsNum o' then 1
      else if IsNum v \<and> IsNum o' then
        (if VersionNum v = VersionNum o' then 0
         else if VersionNum v > VersionNum o' then 1 else -1)
      else
        (if VersionStr v = VersionStr o' then 0
         else if VersionStr v > VersionStr o' then 1 else -1))"

fun comparePre :: "PRVersion list \<Rightarrow> PRVersion list \<Rightarrow> int" where
  \<comment> \<open>the loop over both prerelease lists and the length test after it\<close>
  "comparePre [] [] = 0"
| "comparePre [] (y # ys) = -1"
| "comparePre (x # xs) [] = 1"
| "comparePre (x # xs) (y # ys) =
     (let r = PRCompare x y in
      if r = 0 then comparePre xs ys
      else if r = 1 then 1 else -1)"

definition VersionCompare :: "Version \<Rightarrow> Version \<Rightarrow> int" where
  \<comment> \<open>\<open>Version.Compare\<close>; build meta data takes no part\<close>
  "VersionCompare v o' =
     (if Major v \<noteq> Major o' then (if Major v > Major o' then 1 else -1)
      else if Minor v \<noteq> Minor o' then (if Minor v > Minor o' then 1 else -1)
      else if Patch v \<noteq> Patch o' then (if Patch v > Patch o' then 1 else -1)
      else if Pre v = [] \<and> Pre o' = [] then 0
      else if Pre v = [] \<and> Pre o' \<noteq> [] then 1
      else if Pre v \<noteq> [] \<and> Pre o' = [] then -1
      else comparePre (Pre v) (Pre o'))"

definition Equals :: "Version \<Rightarrow> Version \<Rightarrow> bool" where
  "Equals v o' = (VersionCompare v o' = 0)"

definition GT :: "Version \<Rightarrow> Version \<Rightarrow> bool" where
  "GT v o' = (VersionCompare v o' = 1)"

definition GTE :: "Version \<Rightarrow> Version \<Rightarrow> bool" where
  "GTE v o' = (VersionCompare v o' \<ge> 0)"

section \<open>Version requirements\<close>

definition tagVersionPrefix :: string where
  "tagVersionPrefix = ''v''"

definition trimTagVersion :: "string \<Rightarrow> string" where
  "trimTagVersion tagName = TrimLeft tagName tagVersionPrefix"

definition valueOf :: "semver_error + Version \<Rightarrow> Version" where
  \<comment> \<open>\<open>v, _ := semver.Make(..)\<close>: the error is dropped; with an error the library
      returns the zero value \<open>Version{}\<close>\<close>
  "valueOf r = (case r of Inl e \<Rightarrow> zeroVersion | Inr v \<Rightarrow> v)"

definition versionRequired :: "string \<Rightarrow> string \<Rightarrow> bool" where
  "versionRequired required tag =
     (if required = [] then True
      else
        let required = TrimSpace required;
            tagVer = valueOf (Make (trimTagVersion tag))
        in if HasPrefix required ''>='' then
             GTE tagVer (valueOf (Make (trimTagVersion (TrimLeft required ''>=''))))
           else if HasPrefix required ''>'' then
             GT tagVer (valueOf (Make (trimTagVersion (TrimLeft required ''>''))))
           else
             Equals tagVer (valueOf (Make (trimTagVersion required))))"

definition versionOf :: "string \<Rightarrow> Version" where
  \<comment> \<open>the version a tag or a constraint literal stands for in \<open>versionRequired\<close>: the
      leading prefix characters are removed, the rest is parsed, and a string that
      does not parse counts as the zero version\<close>
  "versionOf s = valueOf (Make (trimTagVersion s))"

subsection \<open>White space around the constraint\<close>

lemma leadingSpace_Nil: "leadingSpace [] = None"
  by (simp add: leadingSpace_def spaceSeqs_def)

lemma trailingSpace_Nil: "trailingSpace [] = None"
  by (simp add: trailingSpace_def spaceSeqs_def)

lemma leadingSpace_trimLeftSpace: "leadingSpace (trimLeftSpace s) = None"
proof (induction s rule: trimLeftSpace.induct)
  case (1 s)
  then show ?case
    by (cases "leadingSpace s") (simp_all add: trimLeftSpace.simps [of s])
qed

lemma trailingSpace_trimRightSpace: "trailingSpace (trimRightSpace s) = None"
proof (induction s rule: trimRightSpace.induct)
  case (1 s)
  then show ?case
    by (cases "trailingSpace s") (simp_all add: trimRightSpace.simps [of s])
qed

lemma trimLeftSpace_id: "leadingSpace s = None \<Longrightarrow> trimLeftSpace s = s"
  by (simp add: trimLeftSpace.simps [of s])

lemma trimRightSpace_id: "trailingSpace s = None \<Longrightarrow> trimRightSpace s = s"
  by (simp add: trimRightSpace.simps [of s])

lemma prefix_trimRightSpace: "prefix (trimRightSpace s) s"
proof (induction s rule: trimRightSpace.induct)
  case (1 s)
  show ?case
  proof (cases "trailingSpace s")
    case None
    then show ?thesis by (simp add: trimRightSpace.simps [of s])
  next
    case (Some p)
    with 1 have "prefix (trimRightSpace (take (length s - length p) s)) (take (length s - length p) s)"
      by simp
    moreover have "prefix (take (length s - length p) s) s"
      by (rule take_is_prefix)
    ultimately show ?thesis
      using Some by (simp add: trimRightSpace.simps [of s])
  qed
qed

lemma leadingSpace_prefix_None:
  assumes "leadingSpace y = None" "prefix x y"
  shows "leadingSpace x = None"
proof -
  have "\<not> prefix p y" if "p \<in> set spaceSeqs" for p
    using assms(1) that by (auto simp: leadingSpace_def find_None_iff)
  then have "\<not> prefix p x" if "p \<in> set spaceSeqs" for p
    using assms(2) that by (meson prefix_order.trans)
  then show ?thesis
    by (auto simp: leadingSpace_def find_None_iff)
qed

lemma TrimSpace_idem: "TrimSpace (TrimSpace s) = TrimSpace s"
proof -
  have "leadingSpace (TrimSpace s) = None"
    unfolding TrimSpace_def
    by (rule leadingSpace_prefix_None [OF leadingSpace_trimLeftSpace prefix_trimRightSpace])
  moreover have "trailingSpace (TrimSpace s) = None"
    unfolding TrimSpace_def by (rule trailingSpace_trimRightSpace)
  ultimately show ?thesis
    by (simp add: TrimSpace_def [of "TrimSpace s"] trimLeftSpace_id trimRightSpace_id)
qed

lemma TrimSpace_Nil: "TrimSpace [] = []"
  by (simp add: TrimSpace_def trimLeftSpace_id trimRightSpace_id leadingSpace_Nil trailingSpace_Nil)

lemma versionRequired_nonempty:
  "c \<noteq> [] \<Longrightarrow> versionRequired c t =
     (let r = TrimSpace c in
      if HasPrefix r ''>='' then GTE (versionOf t) (versionOf (TrimLeft r ''>=''))
      else if HasPrefix r ''>'' then GT (versionOf t) (versionOf (TrimLeft r ''>''))
      else Equals (versionOf t) (versionOf r))"
  by (simp add: versionRequired_def versionOf_def Let_def)

text \<open>
  Claim C5, as the code has it. The empty constraint accepts every tag, and white space
  around a constraint that is empty or has a character other than white space does not
  change the answer: \<open>versionRequired c t = versionRequired (TrimSpace c) t\<close>. The tag
  is passed on as it is.
\<close>

theorem versionRequired_trims_constraint:
  "versionRequired [] t \<and>
   (c = [] \<or> TrimSpace c \<noteq> [] \<longrightarrow> versionRequired c t = versionRequired (TrimSpace c) t)"
proof (intro conjI impI)
  show "versionRequired [] t" by (simp add: versionRequired_def)
next
  assume h: "c = [] \<or> TrimSpace c \<noteq> []"
  show "versionRequired c t = versionRequired (TrimSpace c) t"
  proof (cases "c = []")
    case True
    then show ?thesis by (simp add: TrimSpace_Nil)
  next
    case False
    with h have ne: "TrimSpace c \<noteq> []" by simp
    show ?thesis
      by (simp add: versionRequired_nonempty [OF False] versionRequired_nonempty [OF ne] TrimSpace_idem)
  qed
qed

theorem versionRequired_trims_constraint_witness:
  "TrimSpace '' >=1.3.0  '' = ''>=1.3.0'' \<and>
   versionRequired '' >=1.3.0  '' ''v1.4.0'' = versionRequired ''>=1.3.0'' ''v1.4.0'' \<and>
   versionRequired '' >=1.3.0  '' ''v1.4.0'' \<and>
   versionRequired [] ''v1.4.0''"
proof -
  have t: "TrimSpace '' >=1.3.0  '' = ''>=1.3.0''" by code_simp
  have v: "versionRequired '' >=1.3.0  '' ''v1.4.0''" by code_simp
  from versionRequired_trims_constraint [of "''v1.4.0''" "'' >=1.3.0  ''"] t v
  show ?thesis by simp
qed

text \<open>
  The claim as stated fails twice. A constraint of white space only is not empty, so it
  is trimmed to the empty literal and compared for equality with the zero version: the
  tag \<open>1.3.0\<close> is rejected. And the tag is never trimmed: \<open>'' 1.3.0''\<close> does not
  parse and counts as the zero version.
\<close>

theorem versionRequired_whitespace_counterexample:
  "\<not> versionRequired ''  '' ''1.3.0'' \<and>
   versionRequired (TrimSpace ''  '') (TrimSpace ''1.3.0'') \<and>
   \<not> versionRequired ''1.3.0'' '' 1.3.0'' \<and>
   versionRequired (TrimSpace ''1.3.0'') (TrimSpace '' 1.3.0'')"
  by code_simp

subsection \<open>The three operators\<close>

text \<open>
  Claim C6, as the code has it. The code removes the operator and the version prefix
  with \<open>strings.TrimLeft\<close> in all three places, so every leading character of the
  cutset goes, not one prefix. For a trimmed, non-empty constraint: if it starts with
  \<open>>=\<close>, the answer is whether the version of the tag is at least the version of
  the constraint without all its leading \<open>>\<close> and \<open>=\<close>; if it starts with
  \<open>>\<close> and not with \<open>>=\<close>, whether the version of the tag is above the
  version of the constraint without all its leading \<open>>\<close>; otherwise whether the
  two versions are equal. The version of a text, \<open>versionOf\<close>, is parsed from the
  text without all its leading \<open>v\<close>, and is the zero version when that does not
  parse.
\<close>

theorem versionRequired_operators:
  assumes "c \<noteq> []" and "TrimSpace c = c"
  shows
    "(HasPrefix c ''>=''
        \<longrightarrow> versionRequired c t
              = GTE (versionOf t) (versionOf (dropWhile (\<lambda>x. x = CHR ''>'' \<or> x = CHR ''='') c))) \<and>
     (HasPrefix c ''>'' \<and> \<not> HasPrefix c ''>=''
        \<longrightarrow> versionRequired c t
              = GT (versionOf t) (versionOf (dropWhile (\<lambda>x. x = CHR ''>'') c))) \<and>
     (\<not> HasPrefix c ''>''
        \<longrightarrow> versionRequired c t = Equals (versionOf t) (versionOf c)) \<and>
     versionOf s
       = (case Make (dropWhile (\<lambda>x. x = CHR ''v'') s) of Inl err \<Rightarrow> zeroVersion | Inr v \<Rightarrow> v)"
proof (intro conjI impI)
  assume "HasPrefix c ''>=''"
  then show "versionRequired c t
      = GTE (versionOf t) (versionOf (dropWhile (\<lambda>x. x = CHR ''>'' \<or> x = CHR ''='') c))"
    using assms by (simp add: versionRequired_nonempty TrimLeft_def)
next
  assume "HasPrefix c ''>'' \<and> \<not> HasPrefix c ''>=''"
  then show "versionRequired c t
      = GT (versionOf t) (versionOf (dropWhile (\<lambda>x. x = CHR ''>'') c))"
    using assms by (simp add: versionRequired_nonempty TrimLeft_def)
next
  assume h: "\<not> HasPrefix c ''>''"
  then have "\<not> HasPrefix c ''>=''"
    by (auto simp: HasPrefix_def prefix_def)
  with h show "versionRequired c t = Equals (versionOf t) (versionOf c)"
    using assms by (simp add: versionRequired_nonempty)
next
  show "versionOf s
       = (case Make (dropWhile (\<lambda>x. x = CHR ''v'') s) of Inl err \<Rightarrow> zeroVersion | Inr v \<Rightarrow> v)"
    by (simp add: versionOf_def valueOf_def trimTagVersion_def TrimLeft_def tagVersionPrefix_def)
qed

theorem versionRequired_operators_witness:
  "(versionRequired ''>=1.9.0'' ''1.10.0'' = GTE (versionOf ''1.10.0'') (versionOf ''1.9.0'')) \<and>
   versionRequired ''>=1.9.0'' ''1.10.0'' \<and>
   (versionRequired ''>v1.3.0'' ''v1.3.0'' = GT (versionOf ''v1.3.0'') (versionOf ''v1.3.0'')) \<and>
   \<not> versionRequired ''>v1.3.0'' ''v1.3.0'' \<and>
   (versionRequired ''1.3.0-rc.1'' ''v1.3.0'' = Equals (versionOf ''v1.3.0'') (versionOf ''1.3.0-rc.1'')) \<and>
   \<not> versionRequired ''1.3.0-rc.1'' ''v1.3.0'' \<and>
   (versionRequired ''>==1.0.0'' ''0.9.0'' = GTE (versionOf ''0.9.0'') (versionOf ''1.0.0'')) \<and>
   \<not> versionRequired ''>==1.0.0'' ''0.9.0''"
proof -
  have a: "''>=1.9.0'' \<noteq> [] \<and> TrimSpace ''>=1.9.0'' = ''>=1.9.0'' \<and> HasPrefix ''>=1.9.0'' ''>=''
      \<and> dropWhile (\<lambda>x. x = CHR ''>'' \<or> x = CHR ''='') ''>=1.9.0'' = ''1.9.0''
      \<and> versionRequired ''>=1.9.0'' ''1.10.0''"
    by code_simp
  have b: "''>v1.3.0'' \<noteq> [] \<and> TrimSpace ''>v1.3.0'' = ''>v1.3.0'' \<and> HasPrefix ''>v1.3.0'' ''>''
      \<and> \<not> HasPrefix ''>v1.3.0'' ''>=''
      \<and> dropWhile (\<lambda>x. x = CHR ''>'') ''>v1.3.0'' = ''v1.3.0''
      \<and> \<not> versionRequired ''>v1.3.0'' ''v1.3.0''"
    by code_simp
  have c: "''1.3.0-rc.1'' \<noteq> [] \<and> TrimSpace ''1.3.0-rc.1'' = ''1.3.0-rc.1''
      \<and> \<not> HasPrefix ''1.3.0-rc.1'' ''>'' \<and> \<not> versionRequired ''1.3.0-rc.1'' ''v1.3.0''"
    by code_simp
  have d: "''>==1.0.0'' \<noteq> [] \<and> TrimSpace ''>==1.0.0'' = ''>==1.0.0'' \<and> HasPrefix ''>==1.0.0'' ''>=''
      \<and> dropWhile (\<lambda>x. x = CHR ''>'' \<or> x = CHR ''='') ''>==1.0.0'' = ''1.0.0''
      \<and> \<not> versionRequired ''>==1.0.0'' ''0.9.0''"
    by code_simp
  from a versionRequired_operators [of "''>=1.9.0''" "''1.10.0''"]
  have 1: "versionRequired ''>=1.9.0'' ''1.10.0'' = GTE (versionOf ''1.10.0'') (versionOf ''1.9.0'')"
    by metis
  from b versionRequired_operators [of "''>v1.3.0''" "''v1.3.0''"]
  have 2: "versionRequired ''>v1.3.0'' ''v1.3.0'' = GT (versionOf ''v1.3.0'') (versionOf ''v1.3.0'')"
    by metis
  from c versionRequired_operators [of "''1.3.0-rc.1''" "''v1.3.0''"]
  have 3: "versionRequired ''1.3.0-rc.1'' ''v1.3.0'' = Equals (versionOf ''v1.3.0'') (versionOf ''1.3.0-rc.1'')"
    by metis
  from d versionRequired_operators [of "''>==1.0.0''" "''0.9.0''"]
  have 4: "versionRequired ''>==1.0.0'' ''0.9.0'' = GTE (versionOf ''0.9.0'') (versionOf ''1.0.0'')"
    by metis
  from 1 2 3 4 a b c d show ?thesis by blast
qed

text \<open>
  The claim in its own words, for a trimmed and non-empty constraint: the operator is
  removed as a prefix, a leading version-prefix character is removed from the literal
  and from the tag, and a text that does not parse stands for the zero version, as the
  spec has it. \<open>TrimPrefix\<close> is \<open>strings.TrimPrefix\<close>, which the code does not call.
\<close>

definition TrimPrefix :: "string \<Rightarrow> string \<Rightarrow> string" where
  "TrimPrefix s p = (if prefix p s then drop (length p) s else s)"

definition versionOf_claimed :: "string \<Rightarrow> Version" where
  "versionOf_claimed s = valueOf (Make (TrimPrefix s tagVersionPrefix))"

definition versionRequired_claimed :: "string \<Rightarrow> string \<Rightarrow> bool" where
  "versionRequired_claimed c t =
     (if HasPrefix c ''>='' then
        GTE (versionOf_claimed t) (versionOf_claimed (TrimPrefix c ''>=''))
      else if HasPrefix c ''>'' then
        GT (versionOf_claimed t) (versionOf_claimed (TrimPrefix c ''>''))
      else
        Equals (versionOf_claimed t) (versionOf_claimed c))"

text \<open>
  The claim as stated fails in both places where it speaks of one prefix. In
  \<open>>==1.0.0\<close> the literal after the operator \<open>>=\<close> is \<open>=1.0.0\<close>, which does
  not parse and stands for the zero version, so the claim accepts the tag \<open>0.9.0\<close>;
  the code removes \<open>>==\<close>, compares with \<open>1.0.0\<close> and rejects the tag. In
  \<open>>=vv1.0.0\<close> the literal without one \<open>v\<close> is \<open>v1.0.0\<close>, the zero version
  again, and the claim accepts \<open>0.9.0\<close>; the code removes both \<open>v\<close> and rejects
  it. The same on the side of the tag: the tag \<open>vv1.0.0\<close> meets the constraint
  \<open>1.0.0\<close> on the code and not by the claim.
\<close>

theorem versionRequired_operators_counterexample:
  "TrimSpace ''>==1.0.0'' = ''>==1.0.0'' \<and>
   versionRequired_claimed ''>==1.0.0'' ''0.9.0'' \<and>
   \<not> versionRequired ''>==1.0.0'' ''0.9.0'' \<and>
   TrimSpace ''>=vv1.0.0'' = ''>=vv1.0.0'' \<and>
   versionRequired_claimed ''>=vv1.0.0'' ''0.9.0'' \<and>
   \<not> versionRequired ''>=vv1.0.0'' ''0.9.0'' \<and>
   TrimSpace ''1.0.0'' = ''1.0.0'' \<and>
   \<not> versionRequired_claimed ''1.0.0'' ''vv1.0.0'' \<and>
   versionRequired ''1.0.0'' ''vv1.0.0''"
  by code_simp

section \<open>Benchmark configuration\<close>

text \<open>
  A \<open>float64\<close> is modelled by its exact value: a rational number, an infinity or
  not-a-number. Rounding is not modelled and zero has no sign. The claims about the
  program use the comparisons and the guards on these values, not the rounding.
\<close>

datatype float64 = Fin rat | PInf | NInf | NaN

fun fsub :: "float64 \<Rightarrow> float64 \<Rightarrow> float64" where
  "fsub NaN y = NaN"
| "fsub x NaN = NaN"
| "fsub (Fin a) (Fin b) = Fin (a - b)"
| "fsub (Fin a) PInf = NInf"
| "fsub (Fin a) NInf = PInf"
| "fsub PInf PInf = NaN"
| "fsub PInf y = PInf"
| "fsub NInf NInf = NaN"
| "fsub NInf y = NInf"

fun fdiv :: "float64 \<Rightarrow> float64 \<Rightarrow> float64" where
  "fdiv NaN y = NaN"
| "fdiv x NaN = NaN"
| "fdiv (Fin a) (Fin b) =
     (if b \<noteq> 0 then Fin (a / b)
      else if a = 0 then NaN else if a > 0 then PInf else NInf)"
| "fdiv (Fin a) y = Fin 0"
| "fdiv PInf (Fin b) = (if b \<ge> 0 then PInf else NInf)"
| "fdiv NInf (Fin b) = (if b \<ge> 0 then NInf else PInf)"
| "fdiv x y = NaN"

fun flt :: "float64 \<Rightarrow> float64 \<Rightarrow> bool" where
  "flt (Fin a) (Fin b) = (a < b)"
| "flt (Fin a) PInf = True"
| "flt NInf (Fin b) = True"
| "flt NInf PInf = True"
| "flt x y = False"

definition float64_of_uint64 :: "nat \<Rightarrow> float64" where
  "float64_of_uint64 n = Fin (of_nat n)"

record BenchmarkConfiguration =
  Benchtime :: string
  Threshold :: float64
  Compare :: string
  Cpu :: string
  Timeout :: string
  Benchmem :: "bool option"

text \<open>
  Modelled from the spec: the field \<open>VersionRequirement\<close> of \<open>Benchmark\<close>.
  \<open>runBenchmarks\<close> reads it, and the declaration of the struct in the repository's
  files does not have it yet; the spec lists an optional version constraint string
  among the fields of a benchmark definition. The pointer \<open>Benchmem *bool\<close> is an
  optional value, \<open>None\<close> for \<open>nil\<close>: the program never writes through it
  after the flags are parsed.
\<close>

record Benchmark = BenchmarkConfiguration +
  Name :: string
  Package :: string
  UniqueName :: string
  VersionRequirement :: string

record BenchmarkList = BenchmarkConfiguration +
  Command :: string
  Benchmarks :: "Benchmark list"

text \<open>
  \<open>applyDefaults\<close> is a method of the embedded \<open>BenchmarkConfiguration\<close>, so it
  acts on a benchmark as well; \<open>c.Threshold == 0\<close> holds for the value zero only.
\<close>

definition applyDefaults ::
  "'a BenchmarkConfiguration_scheme \<Rightarrow> 'b BenchmarkConfiguration_scheme
     \<Rightarrow> 'a BenchmarkConfiguration_scheme" where
  "applyDefaults c d =
     c\<lparr>Benchtime := (if Benchtime c = [] then Benchtime d else Benchtime c),
       Threshold := (if Threshold c = Fin 0 then Threshold d else Threshold c),
       Compare := (if Compare c = [] then Compare d else Compare c),
       Cpu := (if Cpu c = [] then Cpu d else Cpu c),
       Timeout := (if Timeout c = [] then Timeout d else Timeout c),
       Benchmem := (if Benchmem c = None then Benchmem d else Benchmem c)\<rparr>"

definition updateBenchmark ::
  "BenchmarkConfiguration \<Rightarrow> 'a BenchmarkConfiguration_scheme \<Rightarrow> Benchmark \<Rightarrow> Benchmark" where
  \<comment> \<open>the body of the loop of \<open>updateBenchmarks\<close>\<close>
  "updateBenchmark flagConfiguration listConfiguration benchmark =
     applyDefaults
       (applyDefaults
          (benchmark\<lparr>UniqueName :=
             (if UniqueName benchmark = [] then Name benchmark else UniqueName benchmark)\<rparr>)
          listConfiguration)
       flagConfiguration"

definition updateBenchmarks :: "BenchmarkConfiguration \<Rightarrow> BenchmarkList \<Rightarrow> BenchmarkList" where
  "updateBenchmarks flagConfiguration benchmarks =
     benchmarks\<lparr>Benchmarks :=
       map (updateBenchmark flagConfiguration benchmarks) (Benchmarks benchmarks)\<rparr>"

lemma applyDefaults_sel:
  "Benchtime (applyDefaults c d) = (if Benchtime c = [] then Benchtime d else Benchtime c)"
  "Threshold (applyDefaults c d) = (if Threshold c = Fin 0 then Threshold d else Threshold c)"
  "Compare (applyDefaults c d) = (if Compare c = [] then Compare d else Compare c)"
  "Cpu (applyDefaults c d) = (if Cpu c = [] then Cpu d else Cpu c)"
  "Timeout (applyDefaults c d) = (if Timeout c = [] then Timeout d else Timeout c)"
  "Benchmem (applyDefaults c d) = (if Benchmem c = None then Benchmem d else Benchmem c)"
  "BenchmarkConfiguration.more (applyDefaults c d) = BenchmarkConfiguration.more c"
  by (simp_all add: applyDefaults_def)

lemma applyDefaults_Benchmark_sel:
  "Name (applyDefaults b d) = Name b"
  "Package (applyDefaults b d) = Package b"
  "UniqueName (applyDefaults b d) = UniqueName b"
  "VersionRequirement (applyDefaults b d) = VersionRequirement b"
  "Benchmark.more (applyDefaults b d) = Benchmark.more b"
  by (simp_all add: applyDefaults_def)

lemma updateBenchmark_sel:
  "Benchtime (updateBenchmark f l b) =
     (if Benchtime b = [] then (if Benchtime l = [] then Benchtime f else Benchtime l) else Benchtime b)"
  "Threshold (updateBenchmark f l b) =
     (if Threshold b = Fin 0 then (if Threshold l = Fin 0 then Threshold f else Threshold l)
      else Threshold b)"
  "Compare (updateBenchmark f l b) =
     (if Compare b = [] then (if Compare l = [] then Compare f else Compare l) else Compare b)"
  "Cpu (updateBenchmark f l b) =
     (if Cpu b = [] then (if Cpu l = [] then Cpu f else Cpu l) else Cpu b)"
  "Timeout (updateBenchmark f l b) =
     (if Timeout b = [] then (if Timeout l = [] then Timeout f else Timeout l) else Timeout b)"
  "Benchmem (updateBenchmark f l b) =
     (if Benchmem b = None then (if Benchmem l = None then Benchmem f else Benchmem l)
      else Benchmem b)"
  "Name (updateBenchmark f l b) = Name b"
  "Package (updateBenchmark f l b) = Package b"
  "UniqueName (updateBenchmark f l b) = (if UniqueName b = [] then Name b else UniqueName b)"
  "VersionRequirement (updateBenchmark f l b) = VersionRequirement b"
  "Benchmark.more (updateBenchmark f l b) = Benchmark.more b"
  by (simp_all add: updateBenchmark_def applyDefaults_sel applyDefaults_Benchmark_sel)

lemma updateBenchmark_idem:
  "updateBenchmark f l (updateBenchmark f l b) = updateBenchmark f l b"
  by (rule Benchmark.equality) (simp_all add: updateBenchmark_sel)

lemma updateBenchmark_cong:
  "Benchtime l = Benchtime l' \<Longrightarrow> Threshold l = Threshold l' \<Longrightarrow> Compare l = Compare l' \<Longrightarrow>
   Cpu l = Cpu l' \<Longrightarrow> Timeout l = Timeout l' \<Longrightarrow> Benchmem l = Benchmem l' \<Longrightarrow>
   updateBenchmark f l b = updateBenchmark f l' b"
  by (rule Benchmark.equality) (simp_all add: updateBenchmark_sel)

text \<open>
  Claim C9. The defaulting pass is idempotent: running \<open>updateBenchmarks\<close> on its
  own result, with the same flags, changes nothing.
\<close>

theorem updateBenchmarks_idempotent:
  "updateBenchmarks flagConfiguration (updateBenchmarks flagConfiguration benchmarks)
     = updateBenchmarks flagConfiguration benchmarks"
proof -
  define u where "u = updateBenchmarks flagConfiguration benchmarks"
  have same: "updateBenchmark flagConfiguration u b = updateBenchmark flagConfiguration benchmarks b" for b
    by (rule updateBenchmark_cong) (simp_all add: u_def updateBenchmarks_def)
  have bs: "Benchmarks u = map (updateBenchmark flagConfiguration benchmarks) (Benchmarks benchmarks)"
    by (simp add: u_def updateBenchmarks_def)
  have "map (updateBenchmark flagConfiguration u) (Benchmarks u) = Benchmarks u"
    by (simp add: bs same updateBenchmark_idem)
  then have "updateBenchmarks flagConfiguration u = u"
    by (simp add: updateBenchmarks_def [of flagConfiguration u])
  then show ?thesis by (simp add: u_def)
qed


section \<open>Results and the comparison\<close>

text \<open>
  Of \<open>parse.Benchmark\<close> (package \<open>golang.org/x/tools/benchmark/parse\<close>) the program
  reads the name and two measurements.
\<close>

record parse_Benchmark =
  parse_Name :: string
  NsPerOp :: float64
  AllocedBytesPerOp :: nat

type_synonym Set = "string \<rightharpoonup> parse_Benchmark"

record result = Benchmark +
  RatioNsPerOp :: float64
  RatioAllocedBytesPerOp :: float64

record comparedScore =
  nsPerOp :: bool
  allocedBytesPerOp :: bool

text \<open>
  The tables are kept as rows of cells. A cell stands for the text the program formats;
  the formatting itself (\<open>Sprintf\<close> with \<open>%.2f\<close> and \<open>%d\<close>,
  \<open>generateRatioItem\<close>, \<open>generateColor\<close>) is not modelled, a cell keeps the value
  that is formatted.
\<close>

datatype cell =
    Text string
  | NsPerOpText float64
  | BytesPerOpText nat
  | RatioItem float64

datatype color = NoColor | RatioColor float64

datatype logline = InfoS string string | ErrorS string string

datatype printed =
    ResultTable "cell list list"
  | ComparisonTable string "(cell list \<times> color list) list"

definition generateRow :: "string \<Rightarrow> parse_Benchmark \<Rightarrow> cell list" where
  "generateRow ref b =
     [Text (parse_Name b), Text ref, NsPerOpText (NsPerOp b), BytesPerOpText (AllocedBytesPerOp b)]"

definition whichScoreToCompare :: "string \<Rightarrow> comparedScore" where
  "whichScoreToCompare c =
     foldl (\<lambda>comparedScore cc.
              if cc = ''ns/op'' then comparedScore\<lparr>nsPerOp := True\<rparr>
              else if cc = ''B/op'' then comparedScore\<lparr>allocedBytesPerOp := True\<rparr>
              else comparedScore)
       \<lparr>nsPerOp = False, allocedBytesPerOp = False\<rparr>
       (Split c CHR '','')"

definition ratioRow :: "result \<Rightarrow> comparedScore \<Rightarrow> cell list \<times> color list" where
  \<comment> \<open>the row and the colours \<open>showRatio\<close> hands to \<open>table.Rich\<close>\<close>
  "ratioRow r cs =
     ([Text (Name r),
       if nsPerOp cs then RatioItem (RatioNsPerOp r) else Text ''-'',
       if allocedBytesPerOp cs then RatioItem (RatioAllocedBytesPerOp r) else Text ''-''],
      [NoColor,
       if nsPerOp cs then RatioColor (RatioNsPerOp r) else NoColor,
       if allocedBytesPerOp cs then RatioColor (RatioAllocedBytesPerOp r) else NoColor])"

fun showRatioLoop ::
  "bool \<Rightarrow> result list \<Rightarrow> bool \<times> (cell list \<times> color list) list
     \<Rightarrow> bool \<times> (cell list \<times> color list) list" where
  "showRatioLoop onlyRegression [] acc = acc"
| "showRatioLoop onlyRegression (r # results) (regression, table) =
     (let comparedScore = whichScoreToCompare (Compare r) in
      if nsPerOp comparedScore \<and> flt (Threshold r) (RatioNsPerOp r) then
        showRatioLoop onlyRegression results (True, table @ [ratioRow r comparedScore])
      else if allocedBytesPerOp comparedScore \<and> flt (Threshold r) (RatioAllocedBytesPerOp r) then
        showRatioLoop onlyRegression results (True, table @ [ratioRow r comparedScore])
      else if onlyRegression then
        showRatioLoop onlyRegression results (regression, table)
      else
        showRatioLoop onlyRegression results (regression, table @ [ratioRow r comparedScore]))"

definition showRatio ::
  "printed list \<Rightarrow> result list \<Rightarrow> bool \<Rightarrow> string \<Rightarrow> bool \<times> printed list" where
  \<comment> \<open>the writer \<open>w\<close> is the list of what has been printed; the result is the
      regression flag and the writer afterwards\<close>
  "showRatio w results onlyRegression compareWith =
     (let (regression, table) = showRatioLoop onlyRegression results (False, [])
      in (regression, if table \<noteq> [] then w @ [ComparisonTable compareWith table] else w))"

definition showResult :: "printed list \<Rightarrow> cell list list \<Rightarrow> printed list" where
  "showResult w rows = w @ [ResultTable rows]"

definition regresses :: "result \<Rightarrow> bool" where
  \<comment> \<open>a selected metric of the result is above the threshold of its benchmark\<close>
  "regresses r =
     ((nsPerOp (whichScoreToCompare (Compare r)) \<and> flt (Threshold r) (RatioNsPerOp r)) \<or>
      (allocedBytesPerOp (whichScoreToCompare (Compare r))
         \<and> flt (Threshold r) (RatioAllocedBytesPerOp r)))"

lemma showRatioLoop_regression:
  "fst (showRatioLoop onlyRegression results (regression, table))
     = (regression \<or> (\<exists>r \<in> set results. regresses r))"
proof (induction results arbitrary: regression table)
  case Nil
  then show ?case by simp
next
  case (Cons r results)
  show ?case
    using Cons.IH by (auto simp add: Let_def regresses_def)
qed

lemma showRatio_regression:
  "fst (showRatio w results onlyRegression compareWith) = (\<exists>r \<in> set results. regresses r)"
proof -
  obtain regression table where
    l: "showRatioLoop onlyRegression results (False, []) = (regression, table)"
    by (cases "showRatioLoop onlyRegression results (False, [])")
  have "regression = fst (showRatioLoop onlyRegression results (False, []))"
    by (simp add: l)
  then have "regression = (\<exists>r \<in> set results. regresses r)"
    by (simp add: showRatioLoop_regression)
  then show ?thesis
    by (simp add: showRatio_def l)
qed

lemma whichScoreToCompare_foldl:
  "foldl (\<lambda>comparedScore cc.
              if cc = ''ns/op'' then comparedScore\<lparr>nsPerOp := True\<rparr>
              else if cc = ''B/op'' then comparedScore\<lparr>allocedBytesPerOp := True\<rparr>
              else comparedScore) acc ts
   = \<lparr>nsPerOp = (nsPerOp acc \<or> ''ns/op'' \<in> set ts),
      allocedBytesPerOp = (allocedBytesPerOp acc \<or> ''B/op'' \<in> set ts)\<rparr>"
proof (induction ts arbitrary: acc)
  case Nil
  then show ?case by simp
next
  case (Cons t ts)
  show ?case by (simp add: Cons.IH)
qed

lemma whichScoreToCompare_tokens:
  "whichScoreToCompare c =
     \<lparr>nsPerOp = (''ns/op'' \<in> set (Split c CHR '','')),
      allocedBytesPerOp = (''B/op'' \<in> set (Split c CHR '',''))\<rparr>"
  by (simp add: whichScoreToCompare_def whichScoreToCompare_foldl)

definition exampleResult :: "string \<Rightarrow> float64 \<Rightarrow> float64 \<Rightarrow> float64 \<Rightarrow> result" where
  \<comment> \<open>a result for the examples: metric selection, threshold and the two ratios\<close>
  "exampleResult c t rn rb =
     \<lparr>Benchtime = ''1s'', Threshold = t, Compare = c, Cpu = ''4'', Timeout = ''10m'',
      Benchmem = Some True, Name = ''BenchmarkA'', Package = ''./pkg'',
      UniqueName = ''BenchmarkA'', VersionRequirement = [],
      RatioNsPerOp = rn, RatioAllocedBytesPerOp = rb\<rparr>"

text \<open>
  Claim C7. \<open>showRatio\<close> returns true exactly when some result of its list has a
  selected metric whose ratio is above the threshold of its benchmark. Either metric is
  enough, the answer is one flag for the whole list, and the function has no error to
  return: it is total.
\<close>

theorem showRatio_iff:
  "fst (showRatio w results onlyRegression compareWith) =
     (\<exists>r \<in> set results.
        (nsPerOp (whichScoreToCompare (Compare r)) \<and> flt (Threshold r) (RatioNsPerOp r)) \<or>
        (allocedBytesPerOp (whichScoreToCompare (Compare r))
           \<and> flt (Threshold r) (RatioAllocedBytesPerOp r)))"
  by (simp add: showRatio_regression regresses_def)

theorem showRatio_iff_witness:
  "fst (showRatio []
          [exampleResult ''ns/op,B/op'' (Fin (1/5)) (Fin (1/10)) (Fin 0),
           exampleResult ''ns/op,B/op'' (Fin (1/5)) (Fin 0) (Fin (1/2))]
          False ''HEAD~1'') \<and>
   \<not> fst (showRatio []
          [exampleResult ''ns/op,B/op'' (Fin (1/5)) (Fin (1/10)) (Fin 0),
           exampleResult ''ns/op'' (Fin (1/5)) (Fin 0) (Fin (1/2))]
          False ''HEAD~1'')"
  by (simp add: showRatio_iff whichScoreToCompare_tokens exampleResult_def)

text \<open>
  Claim C10. The metric selection is split at commas and nothing is trimmed: a metric is
  selected exactly when its token, \<open>ns/op\<close> or \<open>B/op\<close>, is one of the pieces. So
  \<open>ns/op, B/op\<close> selects the time only, and a result whose selection has neither
  token never changes the answer of \<open>showRatio\<close>, whatever its ratios and threshold.
\<close>

theorem whichScoreToCompare_exact_tokens:
  "whichScoreToCompare c =
     \<lparr>nsPerOp = (''ns/op'' \<in> set (Split c CHR '','')),
      allocedBytesPerOp = (''B/op'' \<in> set (Split c CHR '',''))\<rparr> \<and>
   Split ''ns/op, B/op'' CHR '','' = [''ns/op'', '' B/op''] \<and>
   whichScoreToCompare ''ns/op, B/op'' = \<lparr>nsPerOp = True, allocedBytesPerOp = False\<rparr> \<and>
   (''ns/op'' \<notin> set (Split (Compare r) CHR '','') \<and> ''B/op'' \<notin> set (Split (Compare r) CHR '','')
      \<longrightarrow> fst (showRatio w (xs @ r # ys) onlyRegression compareWith)
            = fst (showRatio w (xs @ ys) onlyRegression compareWith)) \<and>
   ((\<forall>r \<in> set results.
        ''ns/op'' \<notin> set (Split (Compare r) CHR '','') \<and> ''B/op'' \<notin> set (Split (Compare r) CHR '',''))
      \<longrightarrow> \<not> fst (showRatio w results onlyRegression compareWith))"
proof (intro conjI impI)
  show "whichScoreToCompare c =
     \<lparr>nsPerOp = (''ns/op'' \<in> set (Split c CHR '','')),
      allocedBytesPerOp = (''B/op'' \<in> set (Split c CHR '',''))\<rparr>"
    by (rule whichScoreToCompare_tokens)
  show "Split ''ns/op, B/op'' CHR '','' = [''ns/op'', '' B/op'']" by simp
  show "whichScoreToCompare ''ns/op, B/op'' = \<lparr>nsPerOp = True, allocedBytesPerOp = False\<rparr>"
    by (simp add: whichScoreToCompare_tokens)
next
  assume "''ns/op'' \<notin> set (Split (Compare r) CHR '','') \<and> ''B/op'' \<notin> set (Split (Compare r) CHR '','')"
  then have "\<not> regresses r"
    by (simp add: regresses_def whichScoreToCompare_tokens)
  then show "fst (showRatio w (xs @ r # ys) onlyRegression compareWith)
            = fst (showRatio w (xs @ ys) onlyRegression compareWith)"
    by (auto simp add: showRatio_regression)
next
  assume "\<forall>r \<in> set results.
        ''ns/op'' \<notin> set (Split (Compare r) CHR '','') \<and> ''B/op'' \<notin> set (Split (Compare r) CHR '','')"
  then have "\<forall>r \<in> set results. \<not> regresses r"
    by (simp add: regresses_def whichScoreToCompare_tokens)
  then show "\<not> fst (showRatio w results onlyRegression compareWith)"
    by (simp add: showRatio_regression)
qed

theorem whichScoreToCompare_exact_tokens_witness:
  "''ns/op'' \<notin> set (Split ''time, B/op'' CHR '','') \<and>
   ''B/op'' \<notin> set (Split ''time, B/op'' CHR '','') \<and>
   flt (Fin (1/5)) (Fin 7) \<and>
   \<not> fst (showRatio [] [exampleResult ''time, B/op'' (Fin (1/5)) (Fin 7) (Fin 7)] False ''HEAD~1'')"
proof -
  have h: "''ns/op'' \<notin> set (Split ''time, B/op'' CHR '','') \<and>
           ''B/op'' \<notin> set (Split ''time, B/op'' CHR '','')"
    by simp
  then have "\<forall>r \<in> set [exampleResult ''time, B/op'' (Fin (1/5)) (Fin 7) (Fin 7)].
        ''ns/op'' \<notin> set (Split (Compare r) CHR '','') \<and> ''B/op'' \<notin> set (Split (Compare r) CHR '','')"
    by (simp add: exampleResult_def)
  with whichScoreToCompare_exact_tokens
         [of "[]" "exampleResult ''time, B/op'' (Fin (1/5)) (Fin 7) (Fin 7)" "[]" "[]" "[]" False "''HEAD~1''"
             "[exampleResult ''time, B/op'' (Fin (1/5)) (Fin 7) (Fin 7)]"]
  have "\<not> fst (showRatio [] [exampleResult ''time, B/op'' (Fin (1/5)) (Fin 7) (Fin 7)] False ''HEAD~1'')"
    by blast
  with h show ?thesis by simp
qed

subsection \<open>The comparison loop of \<open>run\<close>\<close>

text \<open>
  The two closures of the loop read \<open>prevBench\<close>, a variable of the enclosing loop
  body, in their guards; it is their first argument here.
\<close>

definition getRationsPerOP ::
  "parse_Benchmark \<Rightarrow> parse_Benchmark \<Rightarrow> parse_Benchmark \<Rightarrow> float64" where
  "getRationsPerOP prevBench headBench baseBench =
     (if NsPerOp prevBench \<noteq> Fin 0
      then fdiv (fsub (NsPerOp headBench) (NsPerOp baseBench)) (NsPerOp baseBench)
      else Fin 0)"

definition getRatioAllocedBytesPerOp ::
  "parse_Benchmark \<Rightarrow> parse_Benchmark \<Rightarrow> parse_Benchmark \<Rightarrow> float64" where
  "getRatioAllocedBytesPerOp prevBench headBench baseBench =
     (if AllocedBytesPerOp prevBench \<noteq> 0
      then fdiv (fsub (float64_of_uint64 (AllocedBytesPerOp headBench))
                      (float64_of_uint64 (AllocedBytesPerOp baseBench)))
                (float64_of_uint64 (AllocedBytesPerOp baseBench))
      else Fin 0)"

definition makeResult :: "Benchmark \<Rightarrow> float64 \<Rightarrow> float64 \<Rightarrow> result" where
  \<comment> \<open>the composite literal \<open>result{Benchmark: .., RatioNsPerOp: .., ..}\<close>\<close>
  "makeResult benchmark rn rb =
     Benchmark.extend benchmark (result.fields rn rb)"

record comparison =
  rows :: "cell list list"
  ratios :: "result list"
  ratiosWithRelease :: "result list"
  klog :: "logline list"

definition compareStep ::
  "string \<Rightarrow> string \<Rightarrow> Set \<Rightarrow> Set \<Rightarrow> Set option \<Rightarrow> comparison \<Rightarrow> Benchmark \<Rightarrow> comparison" where
  \<comment> \<open>one pass through the body of the loop; \<open>None\<close> is the \<open>nil\<close> release set\<close>
  "compareStep baseRef tagName headSet prevSet latestReleaseSet acc benchmark =
     (let benchName = UniqueName benchmark in
      case headSet benchName of
        None \<Rightarrow> acc\<lparr>klog := klog acc @ [ErrorS ''missing benchmark'' benchName]\<rparr>
      | Some headBench \<Rightarrow>
          let acc = acc\<lparr>rows := rows acc @ [generateRow ''HEAD'' headBench]\<rparr> in
          (case prevSet benchName of
             None \<Rightarrow> acc\<lparr>rows := rows acc @ [[Text benchName, Text baseRef, Text ''-'', Text ''-'']]\<rparr>
           | Some prevBench \<Rightarrow>
               let acc = acc\<lparr>rows := rows acc @ [generateRow baseRef prevBench],
                             ratios := ratios acc @
                               [makeResult benchmark
                                  (getRationsPerOP prevBench headBench prevBench)
                                  (getRatioAllocedBytesPerOp prevBench headBench prevBench)]\<rparr> in
               (case latestReleaseSet of
                  None \<Rightarrow> acc
                | Some releaseSet \<Rightarrow>
                    (case releaseSet benchName of
                       None \<Rightarrow> acc
                     | Some latestReleaseBench \<Rightarrow>
                         acc\<lparr>rows := rows acc @ [generateRow tagName latestReleaseBench],
                             ratiosWithRelease := ratiosWithRelease acc @
                               [makeResult benchmark
                                  (getRationsPerOP prevBench headBench latestReleaseBench)
                                  (getRatioAllocedBytesPerOp prevBench headBench latestReleaseBench)]\<rparr>))))"

definition compareBenchmarks ::
  "string \<Rightarrow> string \<Rightarrow> Set \<Rightarrow> Set \<Rightarrow> Set option \<Rightarrow> Benchmark list \<Rightarrow> comparison" where
  "compareBenchmarks baseRef tagName headSet prevSet latestReleaseSet benchmarks =
     foldl (compareStep baseRef tagName headSet prevSet latestReleaseSet)
       \<lparr>rows = [], ratios = [], ratiosWithRelease = [], klog = []\<rparr> benchmarks"

definition exampleBenchmark :: Benchmark where
  "exampleBenchmark =
     \<lparr>Benchtime = ''1s'', Threshold = Fin (1/5), Compare = ''ns/op,B/op'', Cpu = ''4'',
      Timeout = ''10m'', Benchmem = Some True, Name = ''BenchmarkA'', Package = ''./pkg'',
      UniqueName = ''BenchmarkA'', VersionRequirement = []\<rparr>"

definition measured :: "float64 \<Rightarrow> nat \<Rightarrow> Set" where
  \<comment> \<open>a result set with one measurement, of the example benchmark\<close>
  "measured ns bytes =
     [''BenchmarkA'' \<mapsto> \<lparr>parse_Name = ''BenchmarkA-4'', NsPerOp = ns, AllocedBytesPerOp = bytes\<rparr>]"

text \<open>
  Claim C2 fails for the comparison with the latest release. The guards of both closures
  test the measurement of the base reference, \<open>prevBench\<close>, and the division is
  by the measurement handed in, \<open>baseBench\<close>. With 0 bytes per operation at the base
  reference and 16 at the release, the ratio of 32 bytes against the release is 0
  where the claim gives \<open>(32 - 16) / 16 = 1\<close>; with 16 at the base reference and
  0 at the release the program divides by the zero of the release, and the ratio is
  infinite. The same holds for the time per operation.
\<close>

theorem release_ratio_guard_evaluation:
  "map RatioAllocedBytesPerOp
     (ratiosWithRelease
        (compareBenchmarks ''HEAD~1'' ''refs/tags/v1.0.0''
           (measured (Fin 150) 32) (measured (Fin 100) 0) (Some (measured (Fin 100) 16))
           [exampleBenchmark])) = [Fin 0] \<and>
   fdiv (fsub (float64_of_uint64 32) (float64_of_uint64 16)) (float64_of_uint64 16) = Fin 1 \<and>
   map RatioAllocedBytesPerOp
     (ratiosWithRelease
        (compareBenchmarks ''HEAD~1'' ''refs/tags/v1.0.0''
           (measured (Fin 150) 32) (measured (Fin 100) 16) (Some (measured (Fin 100) 0))
           [exampleBenchmark])) = [PInf] \<and>
   map RatioNsPerOp
     (ratiosWithRelease
        (compareBenchmarks ''HEAD~1'' ''refs/tags/v1.0.0''
           (measured (Fin 150) 32) (measured (Fin 0) 16) (Some (measured (Fin 100) 16))
           [exampleBenchmark])) = [Fin 0] \<and>
   fdiv (fsub (Fin 150) (Fin 100)) (Fin 100) = Fin (1/2)"
  by (simp add: compareBenchmarks_def compareStep_def measured_def exampleBenchmark_def
        makeResult_def getRationsPerOP_def getRatioAllocedBytesPerOp_def float64_of_uint64_def
        Benchmark.defs result.defs BenchmarkConfiguration.defs Let_def)

definition emptyComparison :: comparison where
  "emptyComparison = \<lparr>rows = [], ratios = [], ratiosWithRelease = [], klog = []\<rparr>"

definition stepOf :: "string \<Rightarrow> string \<Rightarrow> Set \<Rightarrow> Set \<Rightarrow> Set option \<Rightarrow> Benchmark \<Rightarrow> comparison" where
  \<comment> \<open>what one benchmark adds to the tables and to the log\<close>
  "stepOf baseRef tagName headSet prevSet latestReleaseSet benchmark =
     compareStep baseRef tagName headSet prevSet latestReleaseSet emptyComparison benchmark"

lemma compareStep_missing:
  "headSet (UniqueName benchmark) = None \<Longrightarrow>
   compareStep baseRef tagName headSet prevSet latestReleaseSet acc benchmark
     = acc\<lparr>klog := klog acc @ [ErrorS ''missing benchmark'' (UniqueName benchmark)]\<rparr>"
  by (simp add: compareStep_def)

lemma compareStep_append:
  "compareStep baseRef tagName headSet prevSet latestReleaseSet acc benchmark
     = \<lparr>rows = rows acc @ rows (stepOf baseRef tagName headSet prevSet latestReleaseSet benchmark),
        ratios = ratios acc @ ratios (stepOf baseRef tagName headSet prevSet latestReleaseSet benchmark),
        ratiosWithRelease = ratiosWithRelease acc
          @ ratiosWithRelease (stepOf baseRef tagName headSet prevSet latestReleaseSet benchmark),
        klog = klog acc @ klog (stepOf baseRef tagName headSet prevSet latestReleaseSet benchmark)\<rparr>"
proof (cases "headSet (UniqueName benchmark)")
  case None
  then show ?thesis by (simp add: compareStep_def stepOf_def emptyComparison_def)
next
  case h: (Some headBench)
  show ?thesis
  proof (cases "prevSet (UniqueName benchmark)")
    case None
    with h show ?thesis by (simp add: compareStep_def stepOf_def emptyComparison_def)
  next
    case p: (Some prevBench)
    show ?thesis
    proof (cases latestReleaseSet)
      case None
      with h p show ?thesis by (simp add: compareStep_def stepOf_def emptyComparison_def)
    next
      case l: (Some releaseSet)
      show ?thesis
      proof (cases "releaseSet (UniqueName benchmark)")
        case None
        with h p l show ?thesis by (simp add: compareStep_def stepOf_def emptyComparison_def)
      next
        case (Some latestReleaseBench)
        with h p l show ?thesis by (simp add: compareStep_def stepOf_def emptyComparison_def)
      qed
    qed
  qed
qed

lemma foldl_compareStep:
  "foldl (compareStep baseRef tagName headSet prevSet latestReleaseSet) acc benchmarks
     = \<lparr>rows = rows acc
          @ concat (map (\<lambda>b. rows (stepOf baseRef tagName headSet prevSet latestReleaseSet b)) benchmarks),
        ratios = ratios acc
          @ concat (map (\<lambda>b. ratios (stepOf baseRef tagName headSet prevSet latestReleaseSet b)) benchmarks),
        ratiosWithRelease = ratiosWithRelease acc
          @ concat (map (\<lambda>b. ratiosWithRelease (stepOf baseRef tagName headSet prevSet latestReleaseSet b))
                     benchmarks),
        klog = klog acc
          @ concat (map (\<lambda>b. klog (stepOf baseRef tagName headSet prevSet latestReleaseSet b)) benchmarks)\<rparr>"
proof (induction benchmarks arbitrary: acc)
  case Nil
  then show ?case by simp
next
  case (Cons b benchmarks)
  show ?case
    by (simp add: Cons.IH) (simp add: compareStep_append)
qed

lemma stepOf_missing:
  assumes "headSet (UniqueName benchmark) = None"
  shows "stepOf baseRef tagName headSet prevSet latestReleaseSet benchmark
           = \<lparr>rows = [], ratios = [], ratiosWithRelease = [],
              klog = [ErrorS ''missing benchmark'' (UniqueName benchmark)]\<rparr>"
  using assms by (simp add: stepOf_def emptyComparison_def compareStep_def)

text \<open>
  Claim C8, as the code has it. A benchmark whose unique name has no result at HEAD
  adds a line to the error log and nothing else: the loop goes on, and the rows and
  both lists of ratios are what they are without this benchmark. No row is recorded
  for it.
\<close>

theorem missing_head_result_skipped:
  assumes "headSet (UniqueName benchmark) = None"
  shows
    "compareStep baseRef tagName headSet prevSet latestReleaseSet acc benchmark
       = acc\<lparr>klog := klog acc @ [ErrorS ''missing benchmark'' (UniqueName benchmark)]\<rparr> \<and>
     rows (compareBenchmarks baseRef tagName headSet prevSet latestReleaseSet (xs @ benchmark # ys))
       = rows (compareBenchmarks baseRef tagName headSet prevSet latestReleaseSet (xs @ ys)) \<and>
     ratios (compareBenchmarks baseRef tagName headSet prevSet latestReleaseSet (xs @ benchmark # ys))
       = ratios (compareBenchmarks baseRef tagName headSet prevSet latestReleaseSet (xs @ ys)) \<and>
     ratiosWithRelease
         (compareBenchmarks baseRef tagName headSet prevSet latestReleaseSet (xs @ benchmark # ys))
       = ratiosWithRelease
           (compareBenchmarks baseRef tagName headSet prevSet latestReleaseSet (xs @ ys)) \<and>
     ErrorS ''missing benchmark'' (UniqueName benchmark)
       \<in> set (klog (compareBenchmarks baseRef tagName headSet prevSet latestReleaseSet
                      (xs @ benchmark # ys)))"
proof -
  have s: "stepOf baseRef tagName headSet prevSet latestReleaseSet benchmark
           = \<lparr>rows = [], ratios = [], ratiosWithRelease = [],
              klog = [ErrorS ''missing benchmark'' (UniqueName benchmark)]\<rparr>"
    using assms by (rule stepOf_missing)
  have 1: "compareStep baseRef tagName headSet prevSet latestReleaseSet acc benchmark
       = acc\<lparr>klog := klog acc @ [ErrorS ''missing benchmark'' (UniqueName benchmark)]\<rparr>"
    using assms by (rule compareStep_missing)
  show ?thesis
    by (simp only: 1 compareBenchmarks_def foldl_compareStep) (simp add: s)
qed

theorem missing_head_result_skipped_witness:
  "Map.empty (UniqueName exampleBenchmark) = (None :: parse_Benchmark option) \<and>
   rows (compareBenchmarks ''HEAD~1'' [] Map.empty (measured (Fin 100) 16) None ([] @ exampleBenchmark # []))
     = rows (compareBenchmarks ''HEAD~1'' [] Map.empty (measured (Fin 100) 16) None ([] @ [])) \<and>
   rows (compareBenchmarks ''HEAD~1'' [] Map.empty (measured (Fin 100) 16) None ([] @ [])) = [] \<and>
   ErrorS ''missing benchmark'' ''BenchmarkA''
     \<in> set (klog (compareBenchmarks ''HEAD~1'' [] Map.empty (measured (Fin 100) 16) None
                    ([] @ exampleBenchmark # [])))"
proof -
  have h: "Map.empty (UniqueName exampleBenchmark) = (None :: parse_Benchmark option)" by simp
  have u: "UniqueName exampleBenchmark = ''BenchmarkA''" by (simp add: exampleBenchmark_def)
  have e: "rows (compareBenchmarks ''HEAD~1'' [] Map.empty (measured (Fin 100) 16) None ([] @ [])) = []"
    by (simp add: compareBenchmarks_def)
  note t = missing_head_result_skipped
         [where headSet = Map.empty and benchmark = exampleBenchmark and baseRef = "''HEAD~1''"
            and tagName = "[]" and prevSet = "measured (Fin 100) 16" and latestReleaseSet = None
            and xs = "[]" and ys = "[]", OF h]
  from t have r: "rows (compareBenchmarks ''HEAD~1'' [] Map.empty (measured (Fin 100) 16) None ([] @ exampleBenchmark # []))
     = rows (compareBenchmarks ''HEAD~1'' [] Map.empty (measured (Fin 100) 16) None ([] @ []))"
    by blast
  from t have k: "ErrorS ''missing benchmark'' (UniqueName exampleBenchmark)
     \<in> set (klog (compareBenchmarks ''HEAD~1'' [] Map.empty (measured (Fin 100) 16) None
                    ([] @ exampleBenchmark # [])))"
    by blast
  from h r e k show ?thesis unfolding u by blast
qed

text \<open>
  The claim as stated fails: with no result at HEAD there is no row at all. The
  placeholder row is what the loop records when the result of the base reference is
  missing.
\<close>

theorem missing_head_result_counterexample:
  "rows (compareBenchmarks ''HEAD~1'' [] Map.empty (measured (Fin 100) 16) None [exampleBenchmark]) = [] \<and>
   klog (compareBenchmarks ''HEAD~1'' [] Map.empty (measured (Fin 100) 16) None [exampleBenchmark])
     = [ErrorS ''missing benchmark'' ''BenchmarkA''] \<and>
   rows (compareBenchmarks ''HEAD~1'' [] (measured (Fin 100) 16) Map.empty None [exampleBenchmark])
     = [generateRow ''HEAD'' \<lparr>parse_Name = ''BenchmarkA-4'', NsPerOp = Fin 100, AllocedBytesPerOp = 16\<rparr>,
        [Text ''BenchmarkA'', Text ''HEAD~1'', Text ''-'', Text ''-'']]"
  by (simp add: compareBenchmarks_def compareStep_def measured_def exampleBenchmark_def Let_def)

section \<open>The repository and the run\<close>

text \<open>
  The program works on a git repository through \<open>go-git\<close>, runs a command for every
  benchmark and parses its output with \<open>parse.ParseSet\<close>. What these collaborators
  answer is a parameter of the model, the record \<open>env\<close>; an error of theirs is kept
  as its message. The state the program changes is the record \<open>world\<close>: the revision
  the working copy is at, the hard resets made so far, what was printed and what was
  logged.
\<close>

type_synonym Hash = string

type_synonym ext_error = string

type_synonym parse_Set = "(string \<times> parse_Benchmark list) list"

text \<open>
  Of a \<open>plumbing.Reference\<close> the program reads \<open>Name().Short()\<close>,
  \<open>Name().String()\<close> and \<open>Hash()\<close>; these are the three fields.
\<close>

record Reference =
  ShortName :: string
  FullName :: string
  RefHash :: Hash

datatype error =
    External ext_error
  | UnableToOpenRepository ext_error
  | UnableToGetHead ext_error
  | UnableToResolveRevision ext_error
  | UnableToGetWorktree ext_error
  | UnableToGetStatus ext_error
  | RepositoryDirty
  | FailedToReset Hash string ext_error
  | VersionTagsNotFound
  | FailedToGetLatestRelease error
  | BenchmarksWorse string bool string bool
  | FailedToRunCommand ext_error
  | FailedToParseResult ext_error

datatype panic = NilPointerDereference

datatype worktree = At Hash | Indeterminate

record exec_result =
  exec_stdout :: string
  exec_stderr :: string
  exec_error :: "ext_error option"

record env =
  configFile :: "ext_error + BenchmarkList"
  plainOpen :: "ext_error option"
  repoHead :: "ext_error + Hash"
  resolveRevision :: "string \<Rightarrow> ext_error + Hash"
  repoWorktree :: "ext_error option"
  worktreeStatus :: "ext_error + bool"
  resetError :: "nat \<Rightarrow> Hash \<Rightarrow> ext_error option"
  repoTags :: "ext_error + Reference list"
  forEachError :: "ext_error option"
  execCommand :: "worktree \<Rightarrow> string \<Rightarrow> string list \<Rightarrow> exec_result"
  ParseSet :: "string \<Rightarrow> ext_error + parse_Set"

record flags =
  flagConfiguration :: BenchmarkConfiguration
  baseRef :: string
  onlyRegression :: bool
  compareLatestVersion :: bool

record world =
  checkedOut :: worktree
  resets :: "Hash list"
  stdout :: "printed list"
  logged :: "logline list"

definition Reset :: "env \<Rightarrow> Hash \<Rightarrow> world \<Rightarrow> ext_error option \<times> world" where
  \<comment> \<open>\<open>w.Reset(&git.ResetOptions{Commit: commit, Mode: git.HardReset})\<close>: whether the
      reset fails is the collaborator's answer to the call; after a failed reset the
      state of the working copy is not known\<close>
  "Reset e commit w =
     (let r = resetError e (length (resets w)) commit
      in (r, w\<lparr>checkedOut := (if r = None then At commit else Indeterminate),
               resets := resets w @ [commit]\<rparr>))"

definition klogInfo :: "string \<Rightarrow> string \<Rightarrow> world \<Rightarrow> world" where
  "klogInfo msg v w = w\<lparr>logged := logged w @ [InfoS msg v]\<rparr>"

subsection \<open>Running the benchmarks at one revision\<close>

definition runBenchmark ::
  "env \<Rightarrow> string \<Rightarrow> Benchmark \<Rightarrow> world \<Rightarrow> (panic + (error + parse_Set)) \<times> world" where
  "runBenchmark e cmdStr benchmark w =
     (case Benchmem benchmark of
        None \<Rightarrow> (Inl NilPointerDereference, w)
      | Some benchmem \<Rightarrow>
          let args = [''test'', ''-run'', [CHR 0x27, CHR ''^'', CHR ''$'', CHR 0x27],
                      ''-bench'', Name benchmark,
                      ''-benchtime'', Benchtime benchmark,
                      ''-timeout'', Timeout benchmark,
                      ''-cpu'', Cpu benchmark, ''-v'']
                     @ (if benchmem then [''-benchmem''] else [])
                     @ [Package benchmark];
              w = klogInfo ''Running benchmark'' cmdStr w;
              r = execCommand e (checkedOut w) cmdStr args
          in case exec_error r of
               Some err \<Rightarrow>
                 if HasSuffix (TrimSpace (exec_stderr r)) ''no packages to test''
                 then (Inr (Inr []), w)
                 else (Inr (Inl (FailedToRunCommand err)),
                       klogInfo ''Exec command error'' (exec_stderr r)
                         (klogInfo ''Exec command output'' (exec_stdout r) w))
             | None \<Rightarrow>
                 (case ParseSet e (exec_stdout r) of
                    Inl err \<Rightarrow> (Inr (Inl (FailedToParseResult err)), w)
                  | Inr s \<Rightarrow> (Inr (Inr s), w)))"

fun runBenchmarksLoop ::
  "env \<Rightarrow> string \<Rightarrow> string \<Rightarrow> Benchmark list \<Rightarrow> Set \<Rightarrow> world \<Rightarrow> (panic + Set) \<times> world" where
  "runBenchmarksLoop e cmdStr tagVersion [] acc w = (Inr acc, w)"
| "runBenchmarksLoop e cmdStr tagVersion (benchmark # rest) acc w =
     (if tagVersion \<noteq> [] \<and> \<not> versionRequired (VersionRequirement benchmark) tagVersion then
        runBenchmarksLoop e cmdStr tagVersion rest acc
          (klogInfo ''Version required, skip test'' tagVersion w)
      else
        case runBenchmark e cmdStr benchmark w of
          (Inl p, w) \<Rightarrow> (Inl p, w)
        | (Inr (Inl err), w) \<Rightarrow>
            runBenchmarksLoop e cmdStr tagVersion rest acc
              (klogInfo ''Parse result error'' [] w)
        | (Inr (Inr parseSet), w) \<Rightarrow>
            (case parseSet of
               [(name, s)] \<Rightarrow>
                 if acc (UniqueName benchmark) \<noteq> None then
                   runBenchmarksLoop e cmdStr tagVersion rest acc
                     (klogInfo ''more than one benchmark with unique name'' (UniqueName benchmark) w)
                 else
                   (case s of
                      [b] \<Rightarrow>
                        runBenchmarksLoop e cmdStr tagVersion rest (acc(UniqueName benchmark \<mapsto> b)) w
                    | _ \<Rightarrow>
                        runBenchmarksLoop e cmdStr tagVersion rest acc
                          (klogInfo ''expected exactly one benchmark result'' name w))
             | _ \<Rightarrow>
                 runBenchmarksLoop e cmdStr tagVersion rest acc
                   (klogInfo ''expected exactly one benchmark result'' [] w)))"

definition runBenchmarks ::
  "env \<Rightarrow> BenchmarkList \<Rightarrow> string \<Rightarrow> world \<Rightarrow> (panic + Set) \<times> world" where
  \<comment> \<open>the error \<open>runBenchmarks\<close> returns is \<open>nil\<close> on every path\<close>
  "runBenchmarks e benchmarks tagVersion w =
     runBenchmarksLoop e (Command benchmarks) tagVersion (Benchmarks benchmarks) Map.empty w"

subsection \<open>The latest release\<close>

text \<open>
  \<open>sort.Slice\<close> is modelled by a stable insertion sort. Go does not promise the order
  of elements that compare equal; no statement below depends on which of several tags
  with the same version comes first.
\<close>

fun insertTag :: "Reference \<times> Version \<Rightarrow> (Reference \<times> Version) list \<Rightarrow> (Reference \<times> Version) list" where
  "insertTag t [] = [t]"
| "insertTag t (u # us) = (if GT (snd u) (snd t) then u # insertTag t us else t # u # us)"

definition sortTags :: "(Reference \<times> Version) list \<Rightarrow> (Reference \<times> Version) list" where
  \<comment> \<open>\<open>sort.Slice(tags, func(i, j) bool { return tags[i].Version.GT(tags[j].Version) })\<close>\<close>
  "sortTags tags = foldr insertTag tags []"

definition semverTag :: "Reference \<Rightarrow> Reference \<times> Version" where
  \<comment> \<open>the callback of \<open>ForEach\<close>: the version stays the zero value when the name does
      not parse, and the tag is appended in either case\<close>
  "semverTag tagRef = (tagRef, valueOf (Make (trimTagVersion (ShortName tagRef))))"

definition semverTagLog :: "Reference \<Rightarrow> logline list" where
  "semverTagLog tagRef =
     (case Make (trimTagVersion (ShortName tagRef)) of
        Inl err \<Rightarrow> [InfoS ''Tag name is a not a valid semver, skipping'' (ShortName tagRef)]
      | Inr v \<Rightarrow> [])"

definition getLatestRelease :: "env \<Rightarrow> world \<Rightarrow> (Reference option \<times> error option) \<times> world" where
  "getLatestRelease e w =
     (case repoTags e of
        Inl err \<Rightarrow> ((None, Some (External err)), w)
      | Inr tagRefs \<Rightarrow>
          let w = w\<lparr>logged := logged w @ concat (map semverTagLog tagRefs)\<rparr>;
              tags = sortTags (map semverTag tagRefs)
          in case tags of
               [] \<Rightarrow> ((None, Some VersionTagsNotFound), w)
             | t # _ \<Rightarrow>
                 ((Some (fst t), map_option External (forEachError e)),
                  klogInfo ''Latest tag version'' (FullName (fst t)) w))"

subsection \<open>The orchestration\<close>

definition resetAndRunBenchmark ::
  "env \<Rightarrow> BenchmarkList \<Rightarrow> Hash \<Rightarrow> string \<Rightarrow> bool \<Rightarrow> world
     \<Rightarrow> (panic + (error + Set)) \<times> world" where
  \<comment> \<open>the closure of \<open>run\<close>; the branch for an error of \<open>runBenchmarks\<close> is never
      taken, since that error is always \<open>nil\<close>\<close>
  "resetAndRunBenchmark e benchmarks commit ref isTag w =
     (case Reset e commit w of
        (Some err, w) \<Rightarrow> (Inr (Inl (FailedToReset commit ref err)), w)
      | (None, w) \<Rightarrow>
          let w = klogInfo ''Run Benchmark'' ref w;
              tagVersion = (if isTag then ref else [])
          in case runBenchmarks e benchmarks tagVersion w of
               (Inl p, w) \<Rightarrow> (Inl p, w)
             | (Inr benchSet, w) \<Rightarrow> (Inr (Inr benchSet), w))"

definition releaseRun ::
  "env \<Rightarrow> flags \<Rightarrow> BenchmarkList \<Rightarrow> world
     \<Rightarrow> (panic + (error + Set option \<times> string)) \<times> world" where
  \<comment> \<open>the block under \<open>if compareLatestVersion\<close>: the release set, \<open>None\<close> for
      \<open>nil\<close>, and \<open>tagName\<close>\<close>
  "releaseRun e fl benchmarks w =
     (if compareLatestVersion fl then
        case getLatestRelease e w of
          ((_, Some err), w) \<Rightarrow> (Inr (Inl (FailedToGetLatestRelease err)), w)
        | ((None, None), w) \<Rightarrow> (Inl NilPointerDereference, w)
        | ((Some prevVersionTag, None), w) \<Rightarrow>
            (case resetAndRunBenchmark e benchmarks (RefHash prevVersionTag)
                    (ShortName prevVersionTag) True w of
               (Inl p, w) \<Rightarrow> (Inl p, w)
             | (Inr (Inl err), w) \<Rightarrow> (Inr (Inl err), w)
             | (Inr (Inr latestReleaseSet), w) \<Rightarrow>
                 (Inr (Inr (Some latestReleaseSet, FullName prevVersionTag)), w))
      else (Inr (Inr (None, [])), w))"

definition report ::
  "flags \<Rightarrow> BenchmarkList \<Rightarrow> Set \<Rightarrow> Set option \<Rightarrow> string \<Rightarrow> Set \<Rightarrow> world
     \<Rightarrow> error option \<times> world" where
  \<comment> \<open>the rest of \<open>run\<close> once the three result sets are there: the comparison loop,
      the tables and the verdict\<close>
  "report fl benchmarks prevSet latestReleaseSet tagName headSet w =
     (let c = compareBenchmarks (baseRef fl) tagName headSet prevSet latestReleaseSet
                (Benchmarks benchmarks);
          w = w\<lparr>logged := logged w @ klog c\<rparr>;
          w = (if \<not> onlyRegression fl then w\<lparr>stdout := showResult (stdout w) (rows c)\<rparr> else w);
          (regression, out) = showRatio (stdout w) (ratios c) (onlyRegression fl) (baseRef fl);
          w = w\<lparr>stdout := out\<rparr>;
          (regressionWithLatestVersion, out) =
            (if latestReleaseSet \<noteq> None
             then showRatio (stdout w) (ratiosWithRelease c) (onlyRegression fl) tagName
             else (False, stdout w));
          w = w\<lparr>stdout := out\<rparr>
      in if regression \<or> regressionWithLatestVersion
         then (Some (BenchmarksWorse (baseRef fl) regression tagName regressionWithLatestVersion), w)
         else (None, w))"

definition runBody ::
  "env \<Rightarrow> flags \<Rightarrow> BenchmarkList \<Rightarrow> Hash \<Rightarrow> Hash \<Rightarrow> world \<Rightarrow> (panic + error option) \<times> world" where
  \<comment> \<open>\<open>run\<close> from \<open>updateBenchmarks()\<close> to its last \<open>return\<close>, the part that the
      deferred call follows\<close>
  "runBody e fl benchmarks0 hd_hash prev w =
     (let benchmarks = updateBenchmarks (flagConfiguration fl) benchmarks0 in
      case resetAndRunBenchmark e benchmarks prev (baseRef fl) False w of
        (Inl p, w) \<Rightarrow> (Inl p, w)
      | (Inr (Inl err), w) \<Rightarrow> (Inr (Some err), w)
      | (Inr (Inr prevSet), w) \<Rightarrow>
          (case releaseRun e fl benchmarks w of
             (Inl p, w) \<Rightarrow> (Inl p, w)
           | (Inr (Inl err), w) \<Rightarrow> (Inr (Some err), w)
           | (Inr (Inr (latestReleaseSet, tagName)), w) \<Rightarrow>
               (case resetAndRunBenchmark e benchmarks hd_hash ''HEAD'' False w of
                  (Inl p, w) \<Rightarrow> (Inl p, w)
                | (Inr (Inl err), w) \<Rightarrow> (Inr (Some err), w)
                | (Inr (Inr headSet), w) \<Rightarrow>
                    (case report fl benchmarks prevSet latestReleaseSet tagName headSet w of
                       (r, w) \<Rightarrow> (Inr r, w)))))"

definition run :: "env \<Rightarrow> flags \<Rightarrow> world \<Rightarrow> (panic + error option) \<times> world" where
  \<comment> \<open>the deferred reset to \<open>head.Hash()\<close> runs after the body on every way out of it,
      a panic included, and its error is dropped\<close>
  "run e fl w =
     (case configFile e of
        Inl err \<Rightarrow> (Inr (Some (External err)), w)
      | Inr benchmarks \<Rightarrow>
     (case plainOpen e of
        Some err \<Rightarrow> (Inr (Some (UnableToOpenRepository err)), w)
      | None \<Rightarrow>
     (case repoHead e of
        Inl err \<Rightarrow> (Inr (Some (UnableToGetHead err)), w)
      | Inr hd_hash \<Rightarrow>
     (case resolveRevision e (baseRef fl) of
        Inl err \<Rightarrow> (Inr (Some (UnableToResolveRevision err)), w)
      | Inr prev \<Rightarrow>
     (case repoWorktree e of
        Some err \<Rightarrow> (Inr (Some (UnableToGetWorktree err)), w)
      | None \<Rightarrow>
     (case worktreeStatus e of
        Inl err \<Rightarrow> (Inr (Some (UnableToGetStatus err)), w)
      | Inr isClean \<Rightarrow>
          if \<not> isClean then (Inr (Some RepositoryDirty), w)
          else
            case runBody e fl benchmarks hd_hash prev w of
              (r, w) \<Rightarrow> (r, snd (Reset e hd_hash w))))))))"

subsection \<open>What the steps do to the working copy\<close>

definition sameRepo :: "world \<Rightarrow> world \<Rightarrow> bool" where
  \<comment> \<open>no reset between the two states\<close>
  "sameRepo w w' = (resets w' = resets w \<and> checkedOut w' = checkedOut w)"

lemma sameRepo_refl: "sameRepo w w"
  by (simp add: sameRepo_def)

lemma sameRepo_trans: "sameRepo w w' \<Longrightarrow> sameRepo w' w'' \<Longrightarrow> sameRepo w w''"
  by (simp add: sameRepo_def)

lemma sameRepo_klogInfo: "sameRepo w (klogInfo msg v w)"
  by (simp add: sameRepo_def klogInfo_def)

lemma sameRepo_klogInfo': "sameRepo w w' \<Longrightarrow> sameRepo w (klogInfo msg v w')"
  by (simp add: sameRepo_def klogInfo_def)

lemma runBenchmark_sameRepo: "sameRepo w (snd (runBenchmark e cmdStr benchmark w))"
  by (simp add: runBenchmark_def Let_def sameRepo_klogInfo sameRepo_klogInfo' sameRepo_refl
           split: option.split sum.split)

lemma runBenchmarksLoop_sameRepo:
  "sameRepo w (snd (runBenchmarksLoop e cmdStr tagVersion benchmarks acc w))"
proof (induction benchmarks arbitrary: acc w)
  case Nil
  then show ?case by (simp add: sameRepo_refl)
next
  case (Cons benchmark rest)
  have step: "sameRepo w (snd (runBenchmarksLoop e cmdStr tagVersion rest acc' w'))"
    if "sameRepo w w'" for acc' w'
    using that Cons.IH [where acc = acc' and w = w'] by (rule sameRepo_trans)
  have rb: "sameRepo w w'" if "runBenchmark e cmdStr benchmark w = (r, w')" for r w'
    using runBenchmark_sameRepo [of w e cmdStr benchmark] that by simp
  show ?case
  proof (cases "tagVersion \<noteq> [] \<and> \<not> versionRequired (VersionRequirement benchmark) tagVersion")
    case True
    then show ?thesis by (simp add: step sameRepo_klogInfo)
  next
    case False
    obtain r w' where r: "runBenchmark e cmdStr benchmark w = (r, w')"
      by (cases "runBenchmark e cmdStr benchmark w")
    note s = rb [OF r]
    from False r s show ?thesis
      by (auto simp add: step sameRepo_klogInfo' split: sum.split list.split prod.split)
  qed
qed

lemma runBenchmarks_sameRepo: "sameRepo w (snd (runBenchmarks e benchmarks tagVersion w))"
  by (simp add: runBenchmarks_def runBenchmarksLoop_sameRepo)

lemma getLatestRelease_sameRepo: "sameRepo w (snd (getLatestRelease e w))"
  by (simp add: getLatestRelease_def Let_def sameRepo_def klogInfo_def split: sum.split list.split)

lemma report_sameRepo:
  "sameRepo w (snd (report fl benchmarks prevSet latestReleaseSet tagName headSet w))"
  by (simp add: report_def Let_def sameRepo_def split: prod.split)

lemma Reset_resets: "resets (snd (Reset e commit w)) = resets w @ [commit]"
  by (simp add: Reset_def Let_def)

lemma Reset_checkedOut:
  "checkedOut (snd (Reset e commit w))
     = (if resetError e (length (resets w)) commit = None then At commit else Indeterminate)"
  by (simp add: Reset_def Let_def)

lemma resetAndRunBenchmark_resets:
  "resets (snd (resetAndRunBenchmark e benchmarks commit ref isTag w)) = resets w @ [commit]"
proof -
  obtain r w1 where R: "Reset e commit w = (r, w1)" by (cases "Reset e commit w")
  then have w1: "resets w1 = resets w @ [commit]"
    using Reset_resets [of e commit w] by simp
  show ?thesis
  proof (cases r)
    case (Some err)
    with R w1 show ?thesis by (simp add: resetAndRunBenchmark_def)
  next
    case None
    let ?w2 = "klogInfo ''Run Benchmark'' ref w1"
    obtain r3 w3 where B: "runBenchmarks e benchmarks (if isTag then ref else []) ?w2 = (r3, w3)"
      by (cases "runBenchmarks e benchmarks (if isTag then ref else []) ?w2")
    have "sameRepo ?w2 (snd (runBenchmarks e benchmarks (if isTag then ref else []) ?w2))"
      by (rule runBenchmarks_sameRepo)
    then have "sameRepo ?w2 w3"
      by (simp add: B)
    then have w3: "resets w3 = resets w1"
      by (simp add: sameRepo_def klogInfo_def)
    from R None w1 B w3 show ?thesis
      by (cases r3) (simp_all add: resetAndRunBenchmark_def Let_def)
  qed
qed

lemma releaseRun_resets:
  "\<exists>xs. resets (snd (releaseRun e fl benchmarks w)) = resets w @ xs"
proof (cases "compareLatestVersion fl")
  case False
  then show ?thesis by (simp add: releaseRun_def)
next
  case True
  obtain t err w1 where g: "getLatestRelease e w = ((t, err), w1)"
    by (cases "getLatestRelease e w") auto
  have w1: "resets w1 = resets w"
    using getLatestRelease_sameRepo [of w e] g by (simp add: sameRepo_def)
  show ?thesis
  proof (cases err)
    case (Some a)
    with True g w1 show ?thesis by (simp add: releaseRun_def split: option.split)
  next
    case None
    show ?thesis
    proof (cases t)
      case None
      with True g w1 \<open>err = None\<close> show ?thesis by (simp add: releaseRun_def)
    next
      case (Some prevVersionTag)
      have "resets (snd (resetAndRunBenchmark e benchmarks (RefHash prevVersionTag)
                (ShortName prevVersionTag) True w1)) = resets w @ [RefHash prevVersionTag]"
        by (simp add: resetAndRunBenchmark_resets w1)
      with True g \<open>err = None\<close> Some show ?thesis
        by (auto simp add: releaseRun_def split: prod.split sum.split)
    qed
  qed
qed

lemma runBody_resets:
  "\<exists>xs. resets (snd (runBody e fl benchmarks0 hd_hash prev w)) = resets w @ prev # xs"
proof -
  let ?bs = "updateBenchmarks (flagConfiguration fl) benchmarks0"
  obtain r1 w1 where a: "resetAndRunBenchmark e ?bs prev (baseRef fl) False w = (r1, w1)"
    by (cases "resetAndRunBenchmark e ?bs prev (baseRef fl) False w")
  have w1: "resets w1 = resets w @ [prev]"
    using resetAndRunBenchmark_resets [of e ?bs prev "baseRef fl" False w] a by simp
  obtain r2 w2 where b: "releaseRun e fl ?bs w1 = (r2, w2)"
    by (cases "releaseRun e fl ?bs w1")
  obtain xs where w2: "resets w2 = resets w1 @ xs"
    using releaseRun_resets [of e fl ?bs w1] b by auto
  obtain r3 w3 where c: "resetAndRunBenchmark e ?bs hd_hash ''HEAD'' False w2 = (r3, w3)"
    by (cases "resetAndRunBenchmark e ?bs hd_hash ''HEAD'' False w2")
  have w3: "resets w3 = resets w2 @ [hd_hash]"
    using resetAndRunBenchmark_resets [of e ?bs hd_hash "''HEAD''" False w2] c by simp
  show ?thesis
  proof (cases r1)
    case (Inl p)
    with a w1 show ?thesis by (simp add: runBody_def Let_def)
  next
    case r1: (Inr x1)
    show ?thesis
    proof (cases x1)
      case (Inl err)
      with a r1 w1 show ?thesis by (simp add: runBody_def Let_def)
    next
      case x1: (Inr prevSet)
      show ?thesis
      proof (cases r2)
        case (Inl p)
        with a r1 x1 b w1 w2 show ?thesis by (simp add: runBody_def Let_def)
      next
        case r2: (Inr x2)
        show ?thesis
        proof (cases x2)
          case (Inl err)
          with a r1 x1 b r2 w1 w2 show ?thesis by (simp add: runBody_def Let_def)
        next
          case x2: (Inr rel)
          obtain latestReleaseSet tagName where rel: "rel = (latestReleaseSet, tagName)"
            by (cases rel)
          show ?thesis
          proof (cases r3)
            case (Inl p)
            with a r1 x1 b r2 x2 rel c w1 w2 w3 show ?thesis by (simp add: runBody_def Let_def)
          next
            case r3: (Inr x3)
            show ?thesis
            proof (cases x3)
              case (Inl err)
              with a r1 x1 b r2 x2 rel c r3 w1 w2 w3 show ?thesis
                by (simp add: runBody_def Let_def)
            next
              case x3: (Inr headSet)
              obtain r4 w4 where
                d: "report fl ?bs prevSet latestReleaseSet tagName headSet w3 = (r4, w4)"
                by (cases "report fl ?bs prevSet latestReleaseSet tagName headSet w3")
              have w4: "resets w4 = resets w3"
                using report_sameRepo [of w3 fl ?bs prevSet latestReleaseSet tagName headSet] d
                by (simp add: sameRepo_def)
              from a r1 x1 b r2 x2 rel c r3 x3 d w1 w2 w3 w4 show ?thesis
                by (simp add: runBody_def Let_def)
            qed
          qed
        qed
      qed
    qed
  qed
qed

subsection \<open>An example repository\<close>

definition exampleList :: BenchmarkList where
  "exampleList =
     \<lparr>Benchtime = ''10s'', Threshold = Fin (1/10), Compare = ''ns/op,B/op'', Cpu = ''2'',
      Timeout = ''10m'', Benchmem = Some True, Command = ''go'',
      Benchmarks =
        [\<lparr>Benchtime = [], Threshold = Fin 0, Compare = [], Cpu = ''1'', Timeout = [],
          Benchmem = None, Name = ''BenchmarkA'', Package = ''./pkg'', UniqueName = [],
          VersionRequirement = []\<rparr>]\<rparr>"

definition exampleFlags :: flags where
  "exampleFlags =
     \<lparr>flagConfiguration =
        \<lparr>Benchtime = ''1s'', Threshold = Fin (1/5), Compare = ''ns/op,B/op'', Cpu = ''4'',
         Timeout = ''10m'', Benchmem = Some True\<rparr>,
      baseRef = ''HEAD~1'', onlyRegression = False, compareLatestVersion = True\<rparr>"

definition exampleEnv :: "bool \<Rightarrow> nat option \<Rightarrow> Reference list \<Rightarrow> env" where
  \<comment> \<open>a repository with HEAD at \<open>c3\<close> and \<open>HEAD~1\<close> at \<open>c1\<close>: whether the working copy
      is clean, which reset fails (if any) and the tags are the parameters; the
      benchmark takes 100 ns at \<open>c1\<close>, 150 ns at \<open>c3\<close> and 120 ns elsewhere\<close>
  "exampleEnv isClean failing tags =
     \<lparr>configFile = Inr exampleList,
      plainOpen = None,
      repoHead = Inr ''c3'',
      resolveRevision = (\<lambda>ref. Inr ''c1''),
      repoWorktree = None,
      worktreeStatus = Inr isClean,
      resetError = (\<lambda>n commit. if failing = Some n then Some ''reset failed'' else None),
      repoTags = Inr tags,
      forEachError = None,
      execCommand = (\<lambda>wt cmd args.
        \<lparr>exec_stdout = (case wt of At h \<Rightarrow> h | Indeterminate \<Rightarrow> []),
         exec_stderr = [], exec_error = None\<rparr>),
      ParseSet = (\<lambda>out.
        Inr [(''BenchmarkA'',
              [\<lparr>parse_Name = ''BenchmarkA-1'',
                NsPerOp = (if out = ''c1'' then Fin 100 else if out = ''c3'' then Fin 150 else Fin 120),
                AllocedBytesPerOp = 16\<rparr>])])\<rparr>"

definition exampleWorld :: world where
  "exampleWorld = \<lparr>checkedOut = At ''c3'', resets = [], stdout = [], logged = []\<rparr>"

definition exampleTag :: "string \<Rightarrow> Hash \<Rightarrow> Reference" where
  "exampleTag n h = \<lparr>ShortName = n, FullName = ''refs/tags/'' @ n, RefHash = h\<rparr>"

text \<open>
  Claim C3. When the working copy is not clean, \<open>run\<close> returns an error and leaves
  the world as it was: no hard reset is made, the working copy is at the revision it was
  at, and nothing is printed. When the steps before the test succeed, the error is the
  one for a dirty repository.
\<close>

theorem dirty_working_copy_aborts:
  assumes "worktreeStatus e = Inr False"
  shows "(\<exists>err. fst (run e fl w) = Inr (Some err)) \<and>
         snd (run e fl w) = w \<and>
         ((\<exists>benchmarks h p. configFile e = Inr benchmarks \<and> plainOpen e = None \<and>
              repoHead e = Inr h \<and> resolveRevision e (baseRef fl) = Inr p \<and>
              repoWorktree e = None)
            \<longrightarrow> fst (run e fl w) = Inr (Some RepositoryDirty))"
  using assms by (auto simp add: run_def split: sum.split option.split)

theorem dirty_working_copy_aborts_witness:
  "worktreeStatus (exampleEnv False None []) = Inr False \<and>
   fst (run (exampleEnv False None []) exampleFlags exampleWorld) = Inr (Some RepositoryDirty) \<and>
   snd (run (exampleEnv False None []) exampleFlags exampleWorld) = exampleWorld \<and>
   resets (snd (run (exampleEnv False None []) exampleFlags exampleWorld)) = []"
proof -
  have h: "worktreeStatus (exampleEnv False None []) = Inr False"
    by (simp add: exampleEnv_def)
  have p: "\<exists>benchmarks h p. configFile (exampleEnv False None []) = Inr benchmarks \<and>
              plainOpen (exampleEnv False None []) = None \<and>
              repoHead (exampleEnv False None []) = Inr h \<and>
              resolveRevision (exampleEnv False None []) (baseRef exampleFlags) = Inr p \<and>
              repoWorktree (exampleEnv False None []) = None"
    by (simp add: exampleEnv_def)
  have r: "resets exampleWorld = []"
    by (simp add: exampleWorld_def)
  from dirty_working_copy_aborts [OF h, of exampleFlags exampleWorld] p h r
  show ?thesis by simp
qed

text \<open>
  Claim C1. Whenever \<open>run\<close> has made a hard reset, whatever it returns (success, a
  regression, an error of a later step or a panic), the resets it made are one or more
  checkouts followed by a last reset to the revision HEAD was at before the run, and the
  working copy is at that revision if this last reset succeeds.
\<close>

theorem restore_on_every_exit:
  assumes "resets (snd (run e fl w)) \<noteq> resets w"
  shows "\<exists>hd_hash pre.
           repoHead e = Inr hd_hash \<and> pre \<noteq> [] \<and>
           resets (snd (run e fl w)) = resets w @ pre @ [hd_hash] \<and>
           checkedOut (snd (run e fl w))
             = (if resetError e (length (resets w @ pre)) hd_hash = None
                then At hd_hash else Indeterminate)"
proof -
  from assms obtain benchmarks hd_hash prev where
    pre: "configFile e = Inr benchmarks" "plainOpen e = None" "repoHead e = Inr hd_hash"
      "resolveRevision e (baseRef fl) = Inr prev" "repoWorktree e = None"
      "worktreeStatus e = Inr True"
    by (auto simp add: run_def split: sum.splits option.splits if_splits)
  obtain r wb where b: "runBody e fl benchmarks hd_hash prev w = (r, wb)"
    by (cases "runBody e fl benchmarks hd_hash prev w")
  obtain xs where wb: "resets wb = resets w @ prev # xs"
    using runBody_resets [of e fl benchmarks hd_hash prev w] b by auto
  have run: "snd (run e fl w) = snd (Reset e hd_hash wb)"
    using pre b by (simp add: run_def)
  have "resets (snd (run e fl w)) = resets w @ (prev # xs) @ [hd_hash]"
    by (simp add: run Reset_resets wb)
  moreover have "checkedOut (snd (run e fl w))
             = (if resetError e (length (resets w @ (prev # xs))) hd_hash = None
                then At hd_hash else Indeterminate)"
    by (simp add: run Reset_checkedOut wb)
  ultimately show ?thesis
    using pre(3) by blast
qed

lemma example_run_reset_fails:
  "fst (run (exampleEnv True (Some 1) [exampleTag ''v1.0.0'' ''t1'']) exampleFlags exampleWorld)
     = Inr (Some (FailedToReset ''t1'' ''v1.0.0'' ''reset failed'')) \<and>
   resets (snd (run (exampleEnv True (Some 1) [exampleTag ''v1.0.0'' ''t1'']) exampleFlags exampleWorld))
     = [''c1'', ''t1'', ''c3''] \<and>
   checkedOut (snd (run (exampleEnv True (Some 1) [exampleTag ''v1.0.0'' ''t1'']) exampleFlags exampleWorld))
     = At ''c3''"
  by code_simp

lemma example_run_regression:
  "fst (run (exampleEnv True None [exampleTag ''v1.0.0'' ''t1'']) exampleFlags exampleWorld)
     = Inr (Some (BenchmarksWorse ''HEAD~1'' True ''refs/tags/v1.0.0'' True)) \<and>
   resets (snd (run (exampleEnv True None [exampleTag ''v1.0.0'' ''t1'']) exampleFlags exampleWorld))
     = [''c1'', ''t1'', ''c3'', ''c3'']"
  by code_simp

lemma example_run_no_release:
  "fst (run (exampleEnv True None []) exampleFlags exampleWorld)
     = Inr (Some (FailedToGetLatestRelease VersionTagsNotFound)) \<and>
   resets (snd (run (exampleEnv True None []) exampleFlags exampleWorld)) = [''c1'', ''c3'']"
  by code_simp

text \<open>
  Claim C4 fails on the code. The callback logs that it skips a tag whose name does not
  parse, and appends it all the same, with the zero version. So a repository whose only
  tag is \<open>foo\<close> has \<open>foo\<close> as its latest release instead of an error, and
  \<open>foo\<close> is preferred to the release \<open>v0.0.0-alpha\<close>, which is below the zero
  version. The error is returned when there is no tag at all.
\<close>

theorem latest_release_keeps_unparsed_tags:
  "isl (Make (trimTagVersion ''foo'')) \<and>
   fst (getLatestRelease (exampleEnv True None [exampleTag ''foo'' ''t1'']) exampleWorld)
     = (Some (exampleTag ''foo'' ''t1''), None) \<and>
   \<not> isl (Make (trimTagVersion ''v0.0.0-alpha'')) \<and>
   fst (getLatestRelease
          (exampleEnv True None [exampleTag ''v0.0.0-alpha'' ''t0'', exampleTag ''foo'' ''t1''])
          exampleWorld)
     = (Some (exampleTag ''foo'' ''t1''), None) \<and>
   fst (getLatestRelease (exampleEnv True None []) exampleWorld) = (None, Some VersionTagsNotFound)"
  by code_simp

theorem restore_on_every_exit_witness:
  "resets (snd (run (exampleEnv True (Some 1) [exampleTag ''v1.0.0'' ''t1'']) exampleFlags exampleWorld))
     \<noteq> resets exampleWorld \<and>
   fst (run (exampleEnv True (Some 1) [exampleTag ''v1.0.0'' ''t1'']) exampleFlags exampleWorld)
     = Inr (Some (FailedToReset ''t1'' ''v1.0.0'' ''reset failed'')) \<and>
   (\<exists>pre. pre \<noteq> [] \<and>
      resets (snd (run (exampleEnv True (Some 1) [exampleTag ''v1.0.0'' ''t1'']) exampleFlags exampleWorld))
        = resets exampleWorld @ pre @ [''c3'']) \<and>
   resets (snd (run (exampleEnv True None [exampleTag ''v1.0.0'' ''t1'']) exampleFlags exampleWorld))
     \<noteq> resets exampleWorld \<and>
   fst (run (exampleEnv True None [exampleTag ''v1.0.0'' ''t1'']) exampleFlags exampleWorld)
     = Inr (Some (BenchmarksWorse ''HEAD~1'' True ''refs/tags/v1.0.0'' True)) \<and>
   (\<exists>pre. pre \<noteq> [] \<and>
      resets (snd (run (exampleEnv True None [exampleTag ''v1.0.0'' ''t1'']) exampleFlags exampleWorld))
        = resets exampleWorld @ pre @ [''c3'']) \<and>
   resets (snd (run (exampleEnv True None []) exampleFlags exampleWorld)) \<noteq> resets exampleWorld \<and>
   fst (run (exampleEnv True None []) exampleFlags exampleWorld)
     = Inr (Some (FailedToGetLatestRelease VersionTagsNotFound)) \<and>
   (\<exists>pre. pre \<noteq> [] \<and>
      resets (snd (run (exampleEnv True None []) exampleFlags exampleWorld))
        = resets exampleWorld @ pre @ [''c3''])"
proof -
  have hd: "repoHead (exampleEnv c f ts) = Inr ''c3''" for c f ts
    by (simp add: exampleEnv_def)
  have w: "resets exampleWorld = []"
    by (simp add: exampleWorld_def)
  let ?a = "run (exampleEnv True (Some 1) [exampleTag ''v1.0.0'' ''t1'']) exampleFlags exampleWorld"
  let ?b = "run (exampleEnv True None [exampleTag ''v1.0.0'' ''t1'']) exampleFlags exampleWorld"
  let ?c = "run (exampleEnv True None []) exampleFlags exampleWorld"
  have a: "resets (snd ?a) \<noteq> resets exampleWorld"
    using example_run_reset_fails by (simp add: w)
  have b: "resets (snd ?b) \<noteq> resets exampleWorld"
    using example_run_regression by (simp add: w)
  have c: "resets (snd ?c) \<noteq> resets exampleWorld"
    using example_run_no_release by (simp add: w)
  from restore_on_every_exit [OF a]
  have a': "\<exists>pre. pre \<noteq> [] \<and> resets (snd ?a) = resets exampleWorld @ pre @ [''c3'']"
    by (auto simp add: hd)
  from restore_on_every_exit [OF b]
  have b': "\<exists>pre. pre \<noteq> [] \<and> resets (snd ?b) = resets exampleWorld @ pre @ [''c3'']"
    by (auto simp add: hd)
  from restore_on_every_exit [OF c]
  have c': "\<exists>pre. pre \<noteq> [] \<and> resets (snd ?c) = resets exampleWorld @ pre @ [''c3'']"
    by (auto simp add: hd)
  from a a' b b' c c' example_run_reset_fails example_run_regression example_run_no_release
  show ?thesis by blast
qed

section \<open>Further properties of the code\<close>

subsection \<open>Defaults, the test of the repository, the ratios against the base reference\<close>

theorem updateBenchmarks_idempotent_witness:
  "updateBenchmarks (flagConfiguration exampleFlags)
     (updateBenchmarks (flagConfiguration exampleFlags) exampleList)
     = updateBenchmarks (flagConfiguration exampleFlags) exampleList \<and>
   Benchmarks (updateBenchmarks (flagConfiguration exampleFlags) exampleList)
     = [\<lparr>Benchtime = ''10s'', Threshold = Fin (1/10), Compare = ''ns/op,B/op'', Cpu = ''1'',
         Timeout = ''10m'', Benchmem = Some True, Name = ''BenchmarkA'', Package = ''./pkg'',
         UniqueName = ''BenchmarkA'', VersionRequirement = []\<rparr>]"
proof -
  have "Benchmarks (updateBenchmarks (flagConfiguration exampleFlags) exampleList)
     = [\<lparr>Benchtime = ''10s'', Threshold = Fin (1/10), Compare = ''ns/op,B/op'', Cpu = ''1'',
         Timeout = ''10m'', Benchmem = Some True, Name = ''BenchmarkA'', Package = ''./pkg'',
         UniqueName = ''BenchmarkA'', VersionRequirement = []\<rparr>]"
    by (simp add: updateBenchmarks_def updateBenchmark_def applyDefaults_def exampleList_def
          exampleFlags_def)
  with updateBenchmarks_idempotent [of "flagConfiguration exampleFlags" exampleList]
  show ?thesis by simp
qed

text \<open>
  The cases of \<open>TestVersionCompare\<close>, the test of the repository, hold of the model.
\<close>

theorem TestVersionCompare:
  "versionRequired ''>=1.9.0'' ''1.10.0'' = True \<and>
   versionRequired ''>=1.3.0'' ''1.3.0'' = True \<and>
   versionRequired ''  >=1.3.0'' ''1.2.0'' = False \<and>
   versionRequired ''>v1.3.0   '' ''v1.4.0'' = True \<and>
   versionRequired ''>1.3.0'' '' v1.3.0'' = False \<and>
   versionRequired ''>v1.3.0'' '' 1.2.0'' = False \<and>
   versionRequired ''1.3.0 '' ''1.2.0'' = False \<and>
   versionRequired '' 1.3.0'' ''1.3.0'' = True \<and>
   versionRequired '''' ''1.3.0'' = True"
  by code_simp

text \<open>
  The comparison of HEAD with the base reference: where both results are there, the
  ratios are \<open>(current - baseline) / baseline\<close> for a baseline other than zero, and
  zero for the baseline zero.
\<close>

theorem base_ratios:
  assumes "headSet (UniqueName benchmark) = Some headBench"
    and "prevSet (UniqueName benchmark) = Some prevBench"
  shows "ratios (stepOf bref tagName headSet prevSet latestReleaseSet benchmark)
    = [makeResult benchmark
        (if NsPerOp prevBench \<noteq> Fin 0
         then fdiv (fsub (NsPerOp headBench) (NsPerOp prevBench)) (NsPerOp prevBench)
         else Fin 0)
        (if AllocedBytesPerOp prevBench \<noteq> 0
         then fdiv (fsub (float64_of_uint64 (AllocedBytesPerOp headBench))
                         (float64_of_uint64 (AllocedBytesPerOp prevBench)))
                   (float64_of_uint64 (AllocedBytesPerOp prevBench))
         else Fin 0)]"
proof (cases latestReleaseSet)
  case None
  with assms show ?thesis
    by (simp add: stepOf_def compareStep_def emptyComparison_def getRationsPerOP_def
          getRatioAllocedBytesPerOp_def)
next
  case (Some releaseSet)
  with assms show ?thesis
    by (cases "releaseSet (UniqueName benchmark)")
       (simp_all add: stepOf_def compareStep_def emptyComparison_def getRationsPerOP_def
          getRatioAllocedBytesPerOp_def)
qed

theorem base_ratios_witness:
  "measured (Fin 150) 32 (UniqueName exampleBenchmark)
     = Some \<lparr>parse_Name = ''BenchmarkA-4'', NsPerOp = Fin 150, AllocedBytesPerOp = 32\<rparr> \<and>
   measured (Fin 100) 0 (UniqueName exampleBenchmark)
     = Some \<lparr>parse_Name = ''BenchmarkA-4'', NsPerOp = Fin 100, AllocedBytesPerOp = 0\<rparr> \<and>
   ratios (stepOf ''HEAD~1'' [] (measured (Fin 150) 32) (measured (Fin 100) 0) None exampleBenchmark)
     = [makeResult exampleBenchmark (Fin (1/2)) (Fin 0)]"
proof -
  have h: "measured (Fin 150) 32 (UniqueName exampleBenchmark)
     = Some \<lparr>parse_Name = ''BenchmarkA-4'', NsPerOp = Fin 150, AllocedBytesPerOp = 32\<rparr>"
    by (simp add: measured_def exampleBenchmark_def)
  have p: "measured (Fin 100) 0 (UniqueName exampleBenchmark)
     = Some \<lparr>parse_Name = ''BenchmarkA-4'', NsPerOp = Fin 100, AllocedBytesPerOp = 0\<rparr>"
    by (simp add: measured_def exampleBenchmark_def)
  from base_ratios
         [where headSet = "measured (Fin 150) 32" and prevSet = "measured (Fin 100) 0"
            and benchmark = exampleBenchmark and bref = "''HEAD~1''" and tagName = "[]"
            and latestReleaseSet = None, OF h p] h p
  show ?thesis by (simp add: float64_of_uint64_def)
qed

subsection \<open>The order of versions\<close>

text \<open>
  \<open>VersionCompare\<close> compares two versions as keys in a linear order: the three
  numbers first, then a release above every prerelease, then the prerelease fields in
  the order of lists, a number below a text. The build meta data is not in the key.
\<close>

definition cmp :: "'a::linorder \<Rightarrow> 'a \<Rightarrow> int" where
  "cmp a b = (if a = b then 0 else if a > b then 1 else -1)"

definition prKey :: "PRVersion \<Rightarrow> bool \<times> nat \<times> string" where
  "prKey p = (if IsNum p then (False, VersionNum p, []) else (True, 0, VersionStr p))"

definition versionKey :: "Version \<Rightarrow> nat \<times> nat \<times> nat \<times> bool \<times> (bool \<times> nat \<times> string) list" where
  "versionKey v = (Major v, Minor v, Patch v, Pre v = [], map prKey (Pre v))"

lemma PRCompare_key: "PRCompare a b = cmp (prKey a) (prKey b)"
  by (auto simp add: PRCompare_def cmp_def prKey_def less_prod_def)

lemma comparePre_key: "comparePre xs ys = cmp (map prKey xs) (map prKey ys)"
proof (induction xs ys rule: comparePre.induct)
  case 1
  then show ?case by (simp add: cmp_def)
next
  case (2 y ys)
  then show ?case by (simp add: cmp_def)
next
  case (3 x xs)
  then show ?case by (simp add: cmp_def)
next
  case (4 x xs y ys)
  show ?case
  proof (cases "prKey x = prKey y")
    case True
    then have "PRCompare x y = 0" by (simp add: PRCompare_key cmp_def)
    with 4 True show ?thesis by (simp add: cmp_def)
  next
    case False
    then have ne: "PRCompare x y \<noteq> 0" by (simp add: PRCompare_key cmp_def)
    show ?thesis
    proof (cases "prKey x > prKey y")
      case True
      with False show ?thesis by (simp add: PRCompare_key cmp_def Let_def)
    next
      case g: False
      with False have "prKey x < prKey y" by simp
      with False g show ?thesis by (simp add: PRCompare_key cmp_def Let_def)
    qed
  qed
qed

lemma VersionCompare_key: "VersionCompare v w = cmp (versionKey v) (versionKey w)"
  by (auto simp add: VersionCompare_def comparePre_key cmp_def versionKey_def less_prod_def
        less_eq_prod_def)

lemma GT_key: "GT v w = (versionKey v > versionKey w)"
  by (simp add: GT_def VersionCompare_key cmp_def)

lemma GTE_key: "GTE v w = (versionKey v \<ge> versionKey w)"
  by (auto simp add: GTE_def VersionCompare_key cmp_def)

lemma Equals_key: "Equals v w = (versionKey v = versionKey w)"
  by (simp add: Equals_def VersionCompare_key cmp_def)


subsection \<open>The tag \<open>getLatestRelease\<close> returns\<close>

definition descending :: "(Reference \<times> Version) list \<Rightarrow> bool" where
  "descending tags = sorted_wrt (\<lambda>a b. versionKey (snd a) \<ge> versionKey (snd b)) tags"

lemma insertTag_set: "set (insertTag t us) = insert t (set us)"
  by (induction us) auto

lemma insertTag_descending: "descending us \<Longrightarrow> descending (insertTag t us)"
proof (induction us)
  case Nil
  then show ?case by (simp add: descending_def)
next
  case (Cons u us)
  then have tl: "descending (insertTag t us)" and
    u: "\<forall>x \<in> set us. versionKey (snd u) \<ge> versionKey (snd x)"
    by (simp_all add: descending_def)
  show ?case
  proof (cases "GT (snd u) (snd t)")
    case True
    with tl u show ?thesis
      by (auto simp add: descending_def insertTag_set GT_key)
  next
    case False
    then have "versionKey (snd t) \<ge> versionKey (snd u)"
      by (simp add: GT_key)
    with u have "\<forall>x \<in> set (u # us). versionKey (snd t) \<ge> versionKey (snd x)"
      by auto
    with False Cons.prems show ?thesis
      by (simp add: descending_def)
  qed
qed

lemma sortTags_set: "set (sortTags tags) = set tags"
  by (induction tags) (simp_all add: sortTags_def insertTag_set)

lemma sortTags_descending: "descending (sortTags tags)"
proof (induction tags)
  case Nil
  then show ?case by (simp add: sortTags_def descending_def)
next
  case (Cons t tags)
  then show ?case
    using insertTag_descending [of "sortTags tags" t] by (simp add: sortTags_def)
qed

lemma sortTags_head:
  assumes "sortTags tags = t # rest"
  shows "t \<in> set tags \<and> (\<forall>u \<in> set tags. GTE (snd t) (snd u))"
proof -
  have "t \<in> set (sortTags tags)" by (simp add: assms)
  then have m: "t \<in> set tags" by (simp add: sortTags_set)
  have "descending (t # rest)"
    using sortTags_descending [of tags] by (simp add: assms)
  then have "\<forall>u \<in> set rest. versionKey (snd t) \<ge> versionKey (snd u)"
    by (simp add: descending_def)
  moreover have "set tags = insert t (set rest)"
    using sortTags_set [of tags] by (simp add: assms)
  ultimately have "\<forall>u \<in> set tags. GTE (snd t) (snd u)"
    by (auto simp add: GTE_key)
  with m show ?thesis by simp
qed

text \<open>
  What \<open>getLatestRelease\<close> returns on the code: with no tag the error, and with tags
  one of them whose version is the greatest, where the version of a tag is
  \<open>versionOf\<close> of its short name, the zero version for a name that does not parse.
\<close>

theorem getLatestRelease_greatest:
  assumes "repoTags e = Inr tagRefs"
  shows "(tagRefs = [] \<longrightarrow> fst (getLatestRelease e w) = (None, Some VersionTagsNotFound)) \<and>
         (tagRefs \<noteq> [] \<longrightarrow>
            (\<exists>t \<in> set tagRefs.
               fst (getLatestRelease e w) = (Some t, map_option External (forEachError e)) \<and>
               (\<forall>u \<in> set tagRefs. GTE (versionOf (ShortName t)) (versionOf (ShortName u)))))"
proof (intro conjI impI)
  assume "tagRefs = []"
  with assms show "fst (getLatestRelease e w) = (None, Some VersionTagsNotFound)"
    by (simp add: getLatestRelease_def sortTags_def)
next
  assume ne: "tagRefs \<noteq> []"
  have "set (sortTags (map semverTag tagRefs)) = set (map semverTag tagRefs)"
    by (rule sortTags_set)
  with ne obtain p rest where s: "sortTags (map semverTag tagRefs) = p # rest"
    by (cases "sortTags (map semverTag tagRefs)") auto
  from sortTags_head [OF s] have
    m: "p \<in> set (map semverTag tagRefs)" and
    g: "\<forall>u \<in> set (map semverTag tagRefs). GTE (snd p) (snd u)"
    by simp_all
  from m obtain t where t: "t \<in> set tagRefs" "p = semverTag t" by auto
  have v: "snd (semverTag r) = versionOf (ShortName r)" for r
    by (simp add: semverTag_def versionOf_def)
  from g t have "\<forall>u \<in> set tagRefs. GTE (versionOf (ShortName t)) (versionOf (ShortName u))"
    by (simp add: v)
  moreover have "fst (getLatestRelease e w) = (Some t, map_option External (forEachError e))"
    using assms s t by (simp add: getLatestRelease_def Let_def semverTag_def)
  ultimately show "\<exists>t \<in> set tagRefs.
               fst (getLatestRelease e w) = (Some t, map_option External (forEachError e)) \<and>
               (\<forall>u \<in> set tagRefs. GTE (versionOf (ShortName t)) (versionOf (ShortName u)))"
    using t(1) by blast
qed

theorem getLatestRelease_greatest_witness:
  "repoTags (exampleEnv True None
      [exampleTag ''v1.9.0'' ''t0'', exampleTag ''v1.10.0'' ''t1'', exampleTag ''v1.2.0'' ''t2''])
     = Inr [exampleTag ''v1.9.0'' ''t0'', exampleTag ''v1.10.0'' ''t1'', exampleTag ''v1.2.0'' ''t2''] \<and>
   fst (getLatestRelease (exampleEnv True None
      [exampleTag ''v1.9.0'' ''t0'', exampleTag ''v1.10.0'' ''t1'', exampleTag ''v1.2.0'' ''t2''])
      exampleWorld) = (Some (exampleTag ''v1.10.0'' ''t1''), None) \<and>
   (\<exists>t \<in> set [exampleTag ''v1.9.0'' ''t0'', exampleTag ''v1.10.0'' ''t1'', exampleTag ''v1.2.0'' ''t2''].
      fst (getLatestRelease (exampleEnv True None
         [exampleTag ''v1.9.0'' ''t0'', exampleTag ''v1.10.0'' ''t1'', exampleTag ''v1.2.0'' ''t2''])
         exampleWorld) = (Some t, None) \<and>
      GTE (versionOf (ShortName t)) (versionOf ''v1.9.0''))"
proof -
  let ?ts = "[exampleTag ''v1.9.0'' ''t0'', exampleTag ''v1.10.0'' ''t1'', exampleTag ''v1.2.0'' ''t2'']"
  have r: "repoTags (exampleEnv True None ?ts) = Inr ?ts"
    by (simp add: exampleEnv_def)
  have f: "forEachError (exampleEnv True None ?ts) = None"
    by (simp add: exampleEnv_def)
  have v: "fst (getLatestRelease (exampleEnv True None ?ts) exampleWorld)
             = (Some (exampleTag ''v1.10.0'' ''t1''), None)"
    by code_simp
  have n: "ShortName (exampleTag ''v1.9.0'' ''t0'') = ''v1.9.0''"
    by (simp add: exampleTag_def)
  from getLatestRelease_greatest [OF r, of exampleWorld]
  have "\<exists>t \<in> set ?ts.
      fst (getLatestRelease (exampleEnv True None ?ts) exampleWorld) = (Some t, None) \<and>
      (\<forall>u \<in> set ?ts. GTE (versionOf (ShortName t)) (versionOf (ShortName u)))"
    by (simp add: f)
  then have "\<exists>t \<in> set ?ts.
      fst (getLatestRelease (exampleEnv True None ?ts) exampleWorld) = (Some t, None) \<and>
      GTE (versionOf (ShortName t)) (versionOf ''v1.9.0'')"
    using n by fastforce
  with r v show ?thesis by blast
qed

end
